theory Spec2Isabelle
  imports Main "HOL-Library.Word"
begin

unbundle bit_operations_syntax

section \<open>The environment of lcmaps_pilot_sub_proxy_utils.c\<close>

text \<open>
  The functions of \<^verbatim>\<open>lcmaps_pilot_sub_proxy_utils.c\<close> act on the process credentials and
  on one file descriptor through system calls. The model threads a record \<open>sys\<close> through
  every call. It holds
  \<^item> the credentials of the process (real, effective and saved ids),
  \<^item> the state of the descriptor (open or not, its file offset) and of the two advisory
    locks taken through it,
  \<^item> the number of bytes allocated for the buffer of \<^verbatim>\<open>read_proxy\<close>, and whether a write
    went past its end,
  \<^item> the list of system calls made so far, in order (\<open>trace\<close>),
  \<^item> the answers the outside world gives to the calls whose outcome the process does
    not decide: whether \<^verbatim>\<open>open\<close>, \<^verbatim>\<open>flock\<close> and \<^verbatim>\<open>fcntl\<close> succeed, the successive
    results of \<^verbatim>\<open>fstat\<close>, \<^verbatim>\<open>malloc\<close>/\<^verbatim>\<open>realloc\<close> and \<^verbatim>\<open>lseek\<close>, and for each \<^verbatim>\<open>read\<close>
    the content the file has at that moment or an I/O error; each list is consumed from
    its head (an exhausted list answers with the call's failure).
\<close>

type_synonym uid_t = "32 word"
type_synonym gid_t = "32 word"
type_synonym mode_t = "32 word"

text \<open>
  The ids a process holds. The value \<^verbatim>\<open>(uid_t)-1\<close> is no id: the kernel keeps it to
  mean "leave unchanged", and the C library's \<^verbatim>\<open>seteuid\<close> and \<^verbatim>\<open>setegid\<close> refuse it.
\<close>

typedef id32 = "{u :: 32 word. u \<noteq> - 1}"
  by (rule exI [of _ 0]) simp

datatype flock_op = LOCK_SH | LOCK_EX | LOCK_UN

datatype fcntl_op = F_RDLCK | F_WRLCK | F_UNLCK

datatype held = Unlocked | Shared | Exclusive

text \<open>The fields of \<^verbatim>\<open>struct stat\<close> that \<^verbatim>\<open>read_proxy\<close> reads. A file's size is not negative.\<close>

record stat =
  st_uid :: uid_t
  st_mode :: mode_t
  st_size :: nat
  st_mtime :: int
  st_ctime :: int

datatype event =
    Seteuid uid_t
  | Setegid gid_t
  | Open string
  | Close
  | Flock flock_op
  | Fcntl fcntl_op
  | Fstat
  | Read nat
  | Lseek
  | Malloc nat
  | Realloc nat
  | Free
  | Usleep nat

record sys =
  ruid_id :: id32
  euid_id :: id32
  suid_id :: id32
  rgid_id :: id32
  egid_id :: id32
  sgid_id :: id32
  fd_open :: bool
  fpos :: nat
  flock_held :: held
  fcntl_held :: held
  buf_cap :: nat
  overrun :: bool
  trace :: "event list"
  open_ok :: bool
  flock_ok :: "flock_op \<Rightarrow> bool"
  fcntl_ok :: "fcntl_op \<Rightarrow> bool"
  fstats :: "stat option list"
  reads :: "string option list"
  allocs :: "bool list"
  lseeks :: "bool list"

text \<open>What \<^verbatim>\<open>getuid\<close>, \<^verbatim>\<open>geteuid\<close>, \<^verbatim>\<open>getgid\<close> and \<^verbatim>\<open>getegid\<close> return, and the saved ids.\<close>

definition ruid :: "sys \<Rightarrow> uid_t" where "ruid w = Rep_id32 (ruid_id w)"
definition euid :: "sys \<Rightarrow> uid_t" where "euid w = Rep_id32 (euid_id w)"
definition suid :: "sys \<Rightarrow> uid_t" where "suid w = Rep_id32 (suid_id w)"
definition rgid :: "sys \<Rightarrow> gid_t" where "rgid w = Rep_id32 (rgid_id w)"
definition egid :: "sys \<Rightarrow> gid_t" where "egid w = Rep_id32 (egid_id w)"
definition sgid :: "sys \<Rightarrow> gid_t" where "sgid w = Rep_id32 (sgid_id w)"

definition emit :: "event \<Rightarrow> sys \<Rightarrow> sys" where
  "emit e w = w\<lparr>trace := trace w @ [e]\<rparr>"

subsection \<open>Credentials\<close>

text \<open>
  \<^verbatim>\<open>seteuid\<close> and \<^verbatim>\<open>setegid\<close> as the C library and the kernel decide them: the value
  \<^verbatim>\<open>(uid_t)-1\<close> is refused; a process whose effective user is the superuser may set any
  other id; any other process may set the effective id only to the real, the effective
  or the saved id. A refused call changes nothing and returns -1.
\<close>

definition may_seteuid :: "uid_t \<Rightarrow> sys \<Rightarrow> bool" where
  "may_seteuid u w = (u \<noteq> - 1 \<and> (euid w = 0 \<or> u = ruid w \<or> u = euid w \<or> u = suid w))"

definition may_setegid :: "gid_t \<Rightarrow> sys \<Rightarrow> bool" where
  "may_setegid g w = (g \<noteq> - 1 \<and> (euid w = 0 \<or> g = rgid w \<or> g = egid w \<or> g = sgid w))"

definition seteuid :: "uid_t \<Rightarrow> sys \<Rightarrow> int \<times> sys" where
  "seteuid u w =
     (if may_seteuid u w then (0, (emit (Seteuid u) w)\<lparr>euid_id := Abs_id32 u\<rparr>)
      else (-1, emit (Seteuid u) w))"

definition setegid :: "gid_t \<Rightarrow> sys \<Rightarrow> int \<times> sys" where
  "setegid g w =
     (if may_setegid g w then (0, (emit (Setegid g) w)\<lparr>egid_id := Abs_id32 g\<rparr>)
      else (-1, emit (Setegid g) w))"

subsection \<open>priv\_drop and raise\_priv\<close>

text \<open>
  \<^verbatim>\<open>priv_drop(unpriv_uid, unpriv_gid)\<close>: the group first, unless it is the effective group
  already; then the user, unless the target is 0 or the effective user already. When
  \<^verbatim>\<open>seteuid\<close> fails the group is set back, the result of that call ignored, and the
  result of \<^verbatim>\<open>seteuid\<close> is returned.
\<close>

definition priv_drop :: "uid_t \<Rightarrow> gid_t \<Rightarrow> sys \<Rightarrow> int \<times> sys" where
  "priv_drop unpriv_uid unpriv_gid w =
     (let euid0 = euid w; egid0 = egid w;
          (rc, w1) = (if unpriv_gid = egid0 then (0, w) else setegid unpriv_gid w)
      in if rc \<noteq> 0 then (rc, w1)
         else
           let (rc', w2) =
                 (if unpriv_uid = 0 \<or> unpriv_uid = euid0 then (0, w1)
                  else seteuid unpriv_uid w1)
           in if rc' \<noteq> 0 then (rc', snd (setegid egid0 w2)) else (rc', w2))"

text \<open>
  \<^verbatim>\<open>raise_priv(euid, egid)\<close>. The C operator \<^verbatim>\<open>||\<close> stops at the first call that fails.
\<close>

definition raise_priv :: "uid_t \<Rightarrow> gid_t \<Rightarrow> sys \<Rightarrow> int \<times> sys" where
  "raise_priv euid0 egid0 w =
     (let uid = ruid w in
      if euid0 = 0 then
        (case seteuid euid0 w of (r1, w1) \<Rightarrow>
           if r1 \<noteq> 0 then (-1, w1)
           else (case setegid egid0 w1 of (r2, w2) \<Rightarrow>
             if r2 \<noteq> 0 then (-1, w2) else (0, w2)))
      else if uid = 0 then
        (case seteuid 0 w of (r1, w1) \<Rightarrow>
           if r1 \<noteq> 0 then (-1, w1)
           else (case setegid egid0 w1 of (r2, w2) \<Rightarrow>
             if r2 \<noteq> 0 then (-1, w2)
             else (case seteuid euid0 w2 of (r3, w3) \<Rightarrow>
               if r3 \<noteq> 0 then (-1, w3) else (0, w3))))
      else (-1, w))"

subsection \<open>filelock\<close>

text \<open>
  The lock flags, as the preprocessor expands them: \<^verbatim>\<open>LCK_NOLOCK\<close> is \<^verbatim>\<open>1<<0\<close>,
  \<^verbatim>\<open>LCK_FCNTL\<close> is \<^verbatim>\<open>1<<1\<close>, \<^verbatim>\<open>LCK_FLOCK\<close> is \<^verbatim>\<open>1<<2\<close>; the actions \<^verbatim>\<open>LCK_READ\<close>,
  \<^verbatim>\<open>LCK_WRITE\<close>, \<^verbatim>\<open>LCK_UNLOCK\<close> are \<^verbatim>\<open>1<<0\<close>, \<^verbatim>\<open>1<<1\<close>, \<^verbatim>\<open>1<<2\<close>.
\<close>

definition LCK_NOLOCK :: int where "LCK_NOLOCK = push_bit 0 1"
definition LCK_FCNTL :: int where "LCK_FCNTL = push_bit 1 1"
definition LCK_FLOCK :: int where "LCK_FLOCK = push_bit 2 1"
definition LCK_READ :: int where "LCK_READ = push_bit 0 1"
definition LCK_WRITE :: int where "LCK_WRITE = push_bit 1 1"
definition LCK_UNLOCK :: int where "LCK_UNLOCK = push_bit 2 1"

text \<open>
  The two locking calls. Whether a call succeeds is the world's answer (another process
  may hold the lock for ever, the file system may not support the call). A lock that was
  granted is held until it is released by an unlocking call or by \<^verbatim>\<open>close\<close>.
\<close>

definition flock :: "flock_op \<Rightarrow> sys \<Rightarrow> int \<times> sys" where
  "flock op w =
     (let w1 = emit (Flock op) w in
      if flock_ok w op then
        (0, w1\<lparr>flock_held := (case op of LOCK_SH \<Rightarrow> Shared | LOCK_EX \<Rightarrow> Exclusive
                                          | LOCK_UN \<Rightarrow> Unlocked)\<rparr>)
      else (-1, w1))"

definition fcntl_setlkw :: "fcntl_op \<Rightarrow> sys \<Rightarrow> int \<times> sys" where
  "fcntl_setlkw op w =
     (let w1 = emit (Fcntl op) w in
      if fcntl_ok w op then
        (0, w1\<lparr>fcntl_held := (case op of F_RDLCK \<Rightarrow> Shared | F_WRLCK \<Rightarrow> Exclusive
                                          | F_UNLCK \<Rightarrow> Unlocked)\<rparr>)
      else (-1, w1))"

text \<open>
  \<^verbatim>\<open>filelock(fd, lock_type, action)\<close>, for a build where \<^verbatim>\<open>__sun\<close> is not defined. An
  action that is none of the three makes the \<^verbatim>\<open>switch\<close> return -1, after the
  \<^verbatim>\<open>flock\<close> call when that came first.
\<close>

definition flock_of_action :: "int \<Rightarrow> flock_op option" where
  "flock_of_action action =
     (if action = LCK_READ then Some LOCK_SH
      else if action = LCK_WRITE then Some LOCK_EX
      else if action = LCK_UNLOCK then Some LOCK_UN
      else None)"

definition fcntl_of_action :: "int \<Rightarrow> fcntl_op option" where
  "fcntl_of_action action =
     (if action = LCK_READ then Some F_RDLCK
      else if action = LCK_WRITE then Some F_WRLCK
      else if action = LCK_UNLOCK then Some F_UNLCK
      else None)"

definition filelock :: "int \<Rightarrow> int \<Rightarrow> sys \<Rightarrow> int \<times> sys" where
  "filelock lock_type action w =
     (if lock_type AND LCK_NOLOCK \<noteq> 0 then (0, w)
      else
        case (if lock_type AND LCK_FLOCK \<noteq> 0 then
                (case flock_of_action action of
                   None \<Rightarrow> None
                 | Some lck \<Rightarrow> Some (flock lck w))
              else Some (0, w)) of
          None \<Rightarrow> (-1, w)
        | Some (rc1, w1) \<Rightarrow>
            (case (if lock_type AND LCK_FCNTL \<noteq> 0 then
                     (case fcntl_of_action action of
                        None \<Rightarrow> None
                      | Some l_type \<Rightarrow> Some (fcntl_setlkw l_type w1))
                   else Some (0, w1)) of
               None \<Rightarrow> (-1, w1)
             | Some (rc2, w2) \<Rightarrow> (if rc1 \<noteq> 0 \<or> rc2 \<noteq> 0 then -1 else 0, w2)))"

subsection \<open>The file and the buffer\<close>

text \<open>
  The calls on the one descriptor of \<^verbatim>\<open>read_proxy\<close>. \<^verbatim>\<open>open\<close> gives a descriptor at
  offset 0. \<^verbatim>\<open>close\<close> releases every advisory lock the process holds through the
  descriptor (the descriptor is never duplicated). \<^verbatim>\<open>read\<close> on the regular file copies
  the bytes of the file's present content from the descriptor's offset on, at most
  \<open>count\<close> of them, to the start of the buffer, advances the offset by their number and
  returns it; on an I/O error it returns -1 and leaves buffer and offset alone. Bytes
  copied beyond the allocated size of the buffer are an overrun. \<^verbatim>\<open>lseek\<close> to the start
  sets the offset to 0. \<^verbatim>\<open>malloc\<close> and \<^verbatim>\<open>realloc\<close> set the allocated size when they
  succeed.
\<close>

definition sys_open :: "string \<Rightarrow> sys \<Rightarrow> bool \<times> sys" where
  "sys_open path w =
     (if open_ok w then (True, (emit (Open path) w)\<lparr>fd_open := True, fpos := 0\<rparr>)
      else (False, emit (Open path) w))"

definition sys_close :: "sys \<Rightarrow> sys" where
  "sys_close w = (emit Close w)\<lparr>fd_open := False, flock_held := Unlocked, fcntl_held := Unlocked\<rparr>"

definition sys_fstat :: "sys \<Rightarrow> stat option \<times> sys" where
  "sys_fstat w =
     (case fstats w of
        [] \<Rightarrow> (None, emit Fstat w)
      | r # rs \<Rightarrow> (r, (emit Fstat w)\<lparr>fstats := rs\<rparr>))"

definition sys_read :: "nat \<Rightarrow> string \<Rightarrow> sys \<Rightarrow> int \<times> string \<times> sys" where
  "sys_read count buf w =
     (case reads w of
        [] \<Rightarrow> (-1, buf, emit (Read count) w)
      | None # rs \<Rightarrow> (-1, buf, (emit (Read count) w)\<lparr>reads := rs\<rparr>)
      | Some content # rs \<Rightarrow>
          (int (length (take count (drop (fpos w) content))),
           take count (drop (fpos w) content) @
             drop (length (take count (drop (fpos w) content))) buf,
           (emit (Read count) w)
             \<lparr>reads := rs,
              fpos := fpos w + length (take count (drop (fpos w) content)),
              overrun := overrun w \<or> buf_cap w < length (take count (drop (fpos w) content))\<rparr>))"

definition sys_malloc :: "nat \<Rightarrow> sys \<Rightarrow> bool \<times> sys" where
  "sys_malloc n w =
     (case allocs w of
        [] \<Rightarrow> (False, emit (Malloc n) w)
      | b # bs \<Rightarrow>
          (b, (emit (Malloc n) w)\<lparr>allocs := bs, buf_cap := (if b then n else buf_cap w)\<rparr>))"

definition sys_realloc :: "nat \<Rightarrow> sys \<Rightarrow> bool \<times> sys" where
  "sys_realloc n w =
     (case allocs w of
        [] \<Rightarrow> (False, emit (Realloc n) w)
      | b # bs \<Rightarrow>
          (b, (emit (Realloc n) w)\<lparr>allocs := bs, buf_cap := (if b then n else buf_cap w)\<rparr>))"

definition sys_lseek :: "sys \<Rightarrow> bool \<times> sys" where
  "sys_lseek w =
     (case lseeks w of
        [] \<Rightarrow> (False, emit Lseek w)
      | b # bs \<Rightarrow>
          (b, (emit Lseek w)\<lparr>lseeks := bs, fpos := (if b then 0 else fpos w)\<rparr>))"

subsection \<open>read\_proxy\<close>

text \<open>The permission bits of \<^verbatim>\<open>sys/stat.h\<close> that \<^verbatim>\<open>read_proxy\<close> tests.\<close>

definition S_IRGRP :: mode_t where "S_IRGRP = 0x20"
definition S_IWGRP :: mode_t where "S_IWGRP = 0x10"
definition S_IROTH :: mode_t where "S_IROTH = 0x4"
definition S_IWOTH :: mode_t where "S_IWOTH = 0x2"

definition tries :: nat where "tries = 10"

text \<open>
  The test of line 657: the file is not owned by the real user, or its mode lets the
  group or the others read or write.
\<close>

definition unsafe_permissions :: "stat \<Rightarrow> uid_t \<Rightarrow> bool" where
  "unsafe_permissions st uid =
     (st_uid st \<noteq> uid \<or> st_mode st AND S_IRGRP \<noteq> 0 \<or> st_mode st AND S_IWGRP \<noteq> 0 \<or>
      st_mode st AND S_IROTH \<noteq> 0 \<or> st_mode st AND S_IWOTH \<noteq> 0)"

text \<open>The comparison of lines 685 to 687, on the snapshot read for and the one taken after.\<close>

definition unchanged :: "stat \<Rightarrow> stat \<Rightarrow> bool" where
  "unchanged s2 s1 =
     (st_size s2 = st_size s1 \<and> st_mtime s2 = st_mtime s1 \<and> st_ctime s2 = st_ctime s1)"

text \<open>
  The retry loop of lines 676 to 710, from the state at the head of iteration \<open>i\<close>: the
  result code so far, the snapshot \<^verbatim>\<open>*sptr1\<close> the next read is sized by, the last result
  of \<^verbatim>\<open>read\<close> and the buffer. It returns the values of \<^verbatim>\<open>rc\<close>, \<^verbatim>\<open>size\<close> and the buffer at
  the loop's exit. Swapping the two pointers makes the snapshot just taken the next
  \<^verbatim>\<open>*sptr1\<close>.
\<close>

function read_loop :: "nat \<Rightarrow> int \<Rightarrow> stat \<Rightarrow> int \<Rightarrow> string \<Rightarrow> sys \<Rightarrow> int \<times> int \<times> string \<times> sys" where
  "read_loop i rc sptr1 sz buf w =
     (if i < tries then
        (case sys_read (st_size sptr1) buf w of
           (sz', buf', w1) \<Rightarrow>
             (case sys_fstat w1 of
                (None, w2) \<Rightarrow> (-1, sz', buf', w2)
              | (Some sptr2, w2) \<Rightarrow>
                  if unchanged sptr2 sptr1 then
                    (if sz' = int (st_size sptr1) then 0 else -1, sz', buf', w2)
                  else if i < tries - 1 then
                    (case sys_realloc (st_size sptr2 + 1) w2 of
                       (False, w3) \<Rightarrow> (-4, sz', buf', w3)
                     | (True, w3) \<Rightarrow>
                         (case sys_lseek (emit (Usleep 500) w3) of
                            (False, w4) \<Rightarrow> (-1, sz', buf', w4)
                          | (True, w4) \<Rightarrow> read_loop (i + 1) rc sptr2 sz' buf' w4))
                  else read_loop (i + 1) (-5) sptr1 sz' buf' w2))
      else (rc, sz, buf, w))"
  by pat_completeness auto
termination
  by (relation "measure (\<lambda>(i, rc, sptr1, sz, buf, w). tries - i)") auto

declare read_loop.simps [simp del]

text \<open>
  \<^verbatim>\<open>read_proxy(path, lock_type, proxy)\<close>. The result is the return code, the new value of
  \<^verbatim>\<open>*proxy\<close> when it is assigned (the bytes before the terminating 0 that line 723
  writes at \<^verbatim>\<open>buf[size]\<close>, an overrun when the buffer has no byte there) and the system
  state. The logging calls are left out.
\<close>

definition read_proxy :: "string \<Rightarrow> int \<Rightarrow> sys \<Rightarrow> int \<times> string option \<times> sys" where
  "read_proxy path lock_type w =
     (let uid = ruid w; euid0 = euid w; gid = rgid w; egid0 = egid w in
      case (if euid0 = 0 \<and> uid \<noteq> 0 then priv_drop uid gid w else (0, w)) of
        (rcd, w1) \<Rightarrow>
          if rcd \<noteq> 0 then (-2, None, w1)
          else
            (case sys_open path w1 of
               (False, w2) \<Rightarrow> (-1, None, snd (raise_priv euid0 egid0 w2))
             | (True, w2) \<Rightarrow>
                 (case filelock lock_type LCK_READ w2 of
                    (rcl, w3) \<Rightarrow>
                      if rcl \<noteq> 0 then (-6, None, snd (raise_priv euid0 egid0 (sys_close w3)))
                      else
                        (case sys_fstat w3 of
                           (None, w4) \<Rightarrow> (-1, None, snd (raise_priv euid0 egid0 (sys_close w4)))
                         | (Some st1, w4) \<Rightarrow>
                             if unsafe_permissions st1 uid then
                               (-3, None, snd (raise_priv euid0 egid0 (sys_close w4)))
                             else
                               (case sys_malloc (st_size st1 + 1) w4 of
                                  (False, w5) \<Rightarrow>
                                    (-4, None, snd (raise_priv euid0 egid0 (sys_close w5)))
                                | (True, w5) \<Rightarrow>
                                    (case read_loop 0 0 st1 0 [] w5 of
                                       (rc, sz, buf, w6) \<Rightarrow>
                                         let w7 = snd (filelock lock_type LCK_UNLOCK w6);
                                             w8 = sys_close w7;
                                             w9 = snd (raise_priv euid0 egid0 w8)
                                         in if rc \<noteq> 0 then (rc, None, emit Free w9)
                                            else (0, Some (take (nat sz) buf),
                                                  w9\<lparr>overrun := overrun w9 \<or> buf_cap w9 \<le> nat sz\<rparr>)))))))"

subsection \<open>Observations on the system state\<close>

text \<open>
  The byte counts of the \<^verbatim>\<open>read\<close> calls made so far, in order; a sequence of snapshots
  each of which differs from the one before it in size, mtime or ctime; and the part of
  the system state that the calls on the file's content and metadata leave alone.
\<close>

fun read_counts :: "event list \<Rightarrow> nat list" where
  "read_counts [] = []"
| "read_counts (Read n # es) = n # read_counts es"
| "read_counts (e # es) = read_counts es"

definition read_calls :: "sys \<Rightarrow> nat list" where
  "read_calls w = read_counts (trace w)"

fun all_changed :: "stat \<Rightarrow> stat list \<Rightarrow> bool" where
  "all_changed s [] = True"
| "all_changed s (t # ts) = (\<not> unchanged t s \<and> all_changed t ts)"

definition same_proc :: "sys \<Rightarrow> sys \<Rightarrow> bool" where
  "same_proc w w' =
     (ruid w' = ruid w \<and> euid w' = euid w \<and> suid w' = suid w \<and>
      rgid w' = rgid w \<and> egid w' = egid w \<and> sgid w' = sgid w \<and>
      fd_open w' = fd_open w \<and> flock_held w' = flock_held w \<and> fcntl_held w' = fcntl_held w \<and>
      open_ok w' = open_ok w \<and> flock_ok w' = flock_ok w \<and> fcntl_ok w' = fcntl_ok w)"

section \<open>Certificates\<close>

text \<open>
  The OpenSSL values the functions handle, with the fields they read. An
  \<^verbatim>\<open>ASN1_OBJECT\<close> is represented by its object identifier in numeric dotted form, the text
  that \<^verbatim>\<open>OBJ_obj2txt\<close> prints when its last argument is 1. A pointer that may be
  \<^verbatim>\<open>NULL\<close> is an option.
\<close>

type_synonym ASN1_OBJECT = string
type_synonym EVP_PKEY = string

record PROXY_POLICY =
  policyLanguage :: "ASN1_OBJECT option"
  policy :: "string option"

record PROXY_CERT_INFO_EXTENSION =
  pcPathLengthConstraint :: "int option"
  proxyPolicy :: "PROXY_POLICY option"

record X509_EXTENSION =
  ext_object :: "ASN1_OBJECT option"
  ext_critical :: bool
  ext_value :: string

record X509 =
  subject_name :: string
  pubkey :: "EVP_PKEY option"
  cert_extensions :: "X509_EXTENSION list"


datatype log_level = LOG_ERR | LOG_WARNING | LOG_INFO | LOG_DEBUG

definition OBJ_BUF_SIZE :: nat where "OBJ_BUF_SIZE = 80"

definition OID_RFC_PROXY :: string where "OID_RFC_PROXY = ''1.3.6.1.5.5.7.1.14''"

definition OID_LIMITED_PROXY :: string where "OID_LIMITED_PROXY = ''1.3.6.1.4.1.3536.1.1.1.9''"

text \<open>
  \<^verbatim>\<open>OBJ_obj2txt(buf, buf_len, a, 1)\<close> leaves in \<^verbatim>\<open>buf\<close> the numeric form of the object,
  cut to \<open>buf_len - 1\<close> characters before the terminating 0. \<^verbatim>\<open>strcmp\<close> on two such
  texts is 0 exactly when they are equal.
\<close>

definition OBJ_obj2txt :: "nat \<Rightarrow> ASN1_OBJECT \<Rightarrow> string" where
  "OBJ_obj2txt buf_len a = take (buf_len - 1) a"

subsection \<open>psp\_verify\_proxy\_signature\<close>

text \<open>
  \<^verbatim>\<open>X509_get_pubkey\<close> is the certificate's key, or \<^verbatim>\<open>NULL\<close> when none can be extracted.
  \<^verbatim>\<open>X509_verify\<close> is OpenSSL's and a parameter of the model: it returns 1 when the
  signature of the certificate verifies under the key, and 0 or a negative number when
  it does not or cannot be checked. The function returns its code together with the
  line it logs.
\<close>

definition X509_get_pubkey :: "X509 \<Rightarrow> EVP_PKEY option" where
  "X509_get_pubkey x = pubkey x"

definition psp_verify_proxy_signature ::
  "(X509 \<Rightarrow> EVP_PKEY \<Rightarrow> int) \<Rightarrow> X509 option \<Rightarrow> X509 option \<Rightarrow> int \<times> (log_level \<times> string) list" where
  "psp_verify_proxy_signature X509_verify payload pilot =
     (case (pilot, payload) of
        (Some pilot_cert, Some payload_cert) \<Rightarrow>
          (case X509_get_pubkey pilot_cert of
             None \<Rightarrow>
               (-1, [(LOG_WARNING,
                  ''psp_verify_proxy_signature: cannot get public key from pilot cert'' @ [CHR 0x0A])])
           | Some pilot_key \<Rightarrow>
               let result = X509_verify payload_cert pilot_key in
               if result \<noteq> 1 then
                 (-1, [(LOG_WARNING,
                    ''psp_verify_proxy_signature: payload cert is not signed by pilot cert'' @ [CHR 0x0A])])
               else (0, []))
      | _ \<Rightarrow>
          (-1, [(LOG_WARNING,
             ''psp_verify_proxy_signature: pilot or payload proxy is unset.'' @ [CHR 0x0A])]))"

subsection \<open>psp\_proxy\_is\_rfc and psp\_proxy\_is\_limited\<close>

text \<open>
  The loop of \<^verbatim>\<open>psp_proxy_is_rfc\<close> over the extensions, which stops at the first one whose
  object prints as the RFC 3820 identifier.
\<close>

fun rfc_scan :: "X509_EXTENSION list \<Rightarrow> int" where
  "rfc_scan [] = 0"
| "rfc_scan (ex # exs) =
     (case ext_object ex of
        None \<Rightarrow> rfc_scan exs
      | Some obj \<Rightarrow>
          if OBJ_obj2txt OBJ_BUF_SIZE obj = OID_RFC_PROXY then 1 else rfc_scan exs)"

definition psp_proxy_is_rfc :: "X509 \<Rightarrow> int" where
  "psp_proxy_is_rfc proxy = rfc_scan (cert_extensions proxy)"

text \<open>
  \<^verbatim>\<open>X509_get_ext_d2i(x, nid, &crit, NULL)\<close> as OpenSSL documents it: the decoded value of
  the one extension of \<open>x\<close> whose object has the identifier \<open>nid\<close>; \<^verbatim>\<open>NULL\<close> when there is
  no such extension, when there is more than one, or when its value cannot be decoded.
  The table \<^verbatim>\<open>OBJ_obj2nid\<close> from objects to identifiers and the decoder of the extension's
  value are OpenSSL's and parameters of the model.
\<close>

definition X509_get_ext_d2i ::
  "(ASN1_OBJECT option \<Rightarrow> int) \<Rightarrow> (string \<Rightarrow> PROXY_CERT_INFO_EXTENSION option) \<Rightarrow>
     X509 \<Rightarrow> int \<Rightarrow> PROXY_CERT_INFO_EXTENSION option" where
  "X509_get_ext_d2i OBJ_obj2nid d2i x nid =
     (case filter (\<lambda>ex. OBJ_obj2nid (ext_object ex) = nid) (cert_extensions x) of
        [] \<Rightarrow> None
      | [ex] \<Rightarrow> d2i (ext_value ex)
      | _ \<Rightarrow> None)"

definition psp_proxy_is_limited ::
  "(ASN1_OBJECT option \<Rightarrow> int) \<Rightarrow> (string \<Rightarrow> PROXY_CERT_INFO_EXTENSION option) \<Rightarrow>
     X509 \<Rightarrow> int" where
  "psp_proxy_is_limited OBJ_obj2nid d2i proxy =
     (let nid = OBJ_obj2nid (Some OID_RFC_PROXY) in
      case X509_get_ext_d2i OBJ_obj2nid d2i proxy nid of
        None \<Rightarrow> 0
      | Some pci \<Rightarrow>
          (case proxyPolicy pci of
             None \<Rightarrow> 0
           | Some pol \<Rightarrow>
               (case policyLanguage pol of
                  None \<Rightarrow> 0
                | Some policy_lang \<Rightarrow>
                    if OBJ_obj2txt OBJ_BUF_SIZE policy_lang = OID_LIMITED_PROXY then 1 else 0)))"

subsection \<open>pem\_string\_to\_x509\_chain\<close>









section \<open>Attributes from the framework\<close>

text \<open>
  An argument of the LCMAPS framework has a name, a type name and a pointer to its value.
  \<^verbatim>\<open>lcmaps_getArgValue\<close> is the framework's: the value pointer of the first argument with
  the given name and type, \<^verbatim>\<open>NULL\<close> when there is none.
\<close>

datatype argval = IntVal int | StringList "string list" | PemString string

record lcmaps_argument =
  argName :: string
  argType :: string
  arg_value :: "argval option"

definition lcmaps_getArgValue :: "string \<Rightarrow> string \<Rightarrow> lcmaps_argument list \<Rightarrow> argval option" where
  "lcmaps_getArgValue name type argv =
     (case filter (\<lambda>a. argName a = name \<and> argType a = type) argv of
        [] \<Rightarrow> None
      | a # _ \<Rightarrow> arg_value a)"

text \<open>
  \<^verbatim>\<open>psp_get_fqans(nfqans, fqans, argc, argv)\<close>, on the values the caller's two variables
  hold at the call; the result is the return code and the values they hold after it.
  Reading through a pointer of the wrong type is undefined: the model has no result
  (\<open>None\<close>) there.
\<close>

definition psp_get_fqans ::
  "int \<Rightarrow> string list option \<Rightarrow> lcmaps_argument list \<Rightarrow> (int \<times> int \<times> string list option) option" where
  "psp_get_fqans nfqans fqans argv =
     (case lcmaps_getArgValue ''nfqan'' ''int'' argv of
        None \<Rightarrow> Some (0, nfqans, fqans)
      | Some (IntVal n) \<Rightarrow>
          if n > 0 then
            (case lcmaps_getArgValue ''fqan_list'' ''char **'' argv of
               None \<Rightarrow> Some (0, n, fqans)
             | Some (StringList l) \<Rightarrow> Some (0, n, Some l)
             | Some _ \<Rightarrow> None)
          else Some (0, n, fqans)
      | Some _ \<Rightarrow> None)"

text \<open>
  \<^verbatim>\<open>psp_match_fqan(nfqan, fqans, pattern)\<close>, from index \<open>i\<close> on. \<^verbatim>\<open>fnmatch\<close> is the C
  library's and a parameter; an index outside the array is undefined (\<open>None\<close>).
\<close>

function match_from :: "(string \<Rightarrow> string \<Rightarrow> int) \<Rightarrow> int \<Rightarrow> int \<Rightarrow> string list option \<Rightarrow> string \<Rightarrow> int option" where
  "match_from fnmatch i nfqan fqans pattern =
     (if i < nfqan then
        (case fqans of
           None \<Rightarrow> None
         | Some l \<Rightarrow>
             if i < 0 \<or> int (length l) \<le> i then None
             else if fnmatch pattern (l ! nat i) = 0 then Some 1
             else match_from fnmatch (i + 1) nfqan fqans pattern)
      else Some 0)"
  by pat_completeness auto
termination
  by (relation "measure (\<lambda>(fnmatch, i, nfqan, fqans, pattern). nat (nfqan - i))") auto

definition psp_match_fqan :: "(string \<Rightarrow> string \<Rightarrow> int) \<Rightarrow> int \<Rightarrow> string list option \<Rightarrow> string \<Rightarrow> int option" where
  "psp_match_fqan fnmatch nfqan fqans pattern = match_from fnmatch 0 nfqan fqans pattern"

section \<open>Example inputs\<close>

text \<open>
  A proxy file of the user 1000 with mode 0600, \<open>n\<close> bytes long and last changed at time
  \<open>t\<close>; and a set-user-ID-root process of that user (effective and saved user 0) with no
  descriptor open, in a world where every call succeeds, \<^verbatim>\<open>fstat\<close> answers with the
  snapshots \<open>sts\<close> and the successive reads find the contents \<open>rds\<close> in the file.
\<close>

definition proxy_stat :: "nat \<Rightarrow> int \<Rightarrow> stat" where
  "proxy_stat n t = \<lparr>st_uid = 1000, st_mode = 0x180, st_size = n, st_mtime = t, st_ctime = t\<rparr>"

definition setuid_root_sys :: "stat option list \<Rightarrow> string option list \<Rightarrow> sys" where
  "setuid_root_sys sts rds =
     \<lparr>ruid_id = Abs_id32 1000, euid_id = Abs_id32 0, suid_id = Abs_id32 0,
      rgid_id = Abs_id32 1000, egid_id = Abs_id32 0, sgid_id = Abs_id32 0,
      fd_open = False, fpos = 0, flock_held = Unlocked, fcntl_held = Unlocked,
      buf_cap = 0, overrun = False, trace = [],
      open_ok = True, flock_ok = (\<lambda>_. True), fcntl_ok = (\<lambda>_. True),
      fstats = sts, reads = rds,
      allocs = [True, True, True, True, True, True, True, True, True, True],
      lseeks = [True, True, True, True, True, True, True, True, True]\<rparr>"

text \<open>
  A pilot certificate, a payload certificate that carries a limited RFC 3820 proxy
  extension after a key-usage extension, a certificate without a usable key, and two
  certificates whose proxy extension holds a policy without language and bytes that do
  not decode. With them: a signature check under which the payload certificate verifies
  with the pilot's key only, OpenSSL's identifier 663 for the proxy extension, and a
  decoder of the three extension values.
\<close>

definition pilot_cert :: X509 where
  "pilot_cert = \<lparr>subject_name = ''/CN=pilot'', pubkey = Some ''pilot-key'', cert_extensions = []\<rparr>"

definition payload_cert :: X509 where
  "payload_cert =
     \<lparr>subject_name = ''/CN=pilot/CN=payload'', pubkey = Some ''payload-key'',
      cert_extensions =
        [\<lparr>ext_object = Some ''2.5.29.15'', ext_critical = True, ext_value = ''usage''\<rparr>,
         \<lparr>ext_object = Some ''1.3.6.1.5.5.7.1.14'', ext_critical = True, ext_value = ''limited''\<rparr>]\<rparr>"

definition keyless_cert :: X509 where
  "keyless_cert = \<lparr>subject_name = ''/CN=keyless'', pubkey = None, cert_extensions = []\<rparr>"

definition nolang_cert :: X509 where
  "nolang_cert =
     \<lparr>subject_name = ''/CN=pilot/CN=nolang'', pubkey = Some ''nolang-key'',
      cert_extensions =
        [\<lparr>ext_object = Some ''1.3.6.1.5.5.7.1.14'', ext_critical = True, ext_value = ''nolang''\<rparr>]\<rparr>"

definition garbled_cert :: X509 where
  "garbled_cert =
     \<lparr>subject_name = ''/CN=pilot/CN=garbled'', pubkey = Some ''garbled-key'',
      cert_extensions =
        [\<lparr>ext_object = Some ''1.3.6.1.5.5.7.1.14'', ext_critical = True, ext_value = ''garbled''\<rparr>]\<rparr>"

definition verifies_under :: "X509 \<Rightarrow> EVP_PKEY \<Rightarrow> int" where
  "verifies_under c k =
     (if subject_name c = ''/CN=pilot/CN=payload'' \<and> k = ''pilot-key'' then 1 else 0)"

definition nid_table :: "ASN1_OBJECT option \<Rightarrow> int" where
  "nid_table obj = (if obj = Some ''1.3.6.1.5.5.7.1.14'' then 663 else 0)"

definition pci_decoder :: "string \<Rightarrow> PROXY_CERT_INFO_EXTENSION option" where
  "pci_decoder v =
     (if v = ''limited'' then
        Some \<lparr>pcPathLengthConstraint = None,
              proxyPolicy = Some \<lparr>policyLanguage = Some ''1.3.6.1.4.1.3536.1.1.1.9'', policy = None\<rparr>\<rparr>
      else if v = ''nolang'' then
        Some \<lparr>pcPathLengthConstraint = None,
              proxyPolicy = Some \<lparr>policyLanguage = None, policy = None\<rparr>\<rparr>
      else None)"

section \<open>Auxiliary facts\<close>

subsection \<open>What each call leaves unchanged\<close>

lemmas ids_defs = ruid_def euid_def suid_def rgid_def egid_def sgid_def

lemma Rep_Abs_id32 [simp]: "u \<noteq> - 1 \<Longrightarrow> Rep_id32 (Abs_id32 u) = u"
  by (simp add: Abs_id32_inverse)

lemma Rep_id32_valid [simp]: "Rep_id32 x \<noteq> - 1"
  using Rep_id32 [of x] by simp

lemma ids_valid [simp]:
  "ruid w \<noteq> - 1" "euid w \<noteq> - 1" "suid w \<noteq> - 1"
  "rgid w \<noteq> - 1" "egid w \<noteq> - 1" "sgid w \<noteq> - 1"
  by (simp_all add: ruid_def euid_def suid_def rgid_def egid_def sgid_def)

lemma set_ids [simp]:
  "euid (w\<lparr>euid_id := Abs_id32 u\<rparr>) = (if u = - 1 then Rep_id32 (Abs_id32 u) else u)"
  "egid (w\<lparr>egid_id := Abs_id32 g\<rparr>) = (if g = - 1 then Rep_id32 (Abs_id32 g) else g)"
  "ruid (w\<lparr>euid_id := x\<rparr>) = ruid w" "suid (w\<lparr>euid_id := x\<rparr>) = suid w"
  "rgid (w\<lparr>euid_id := x\<rparr>) = rgid w" "egid (w\<lparr>euid_id := x\<rparr>) = egid w"
  "sgid (w\<lparr>euid_id := x\<rparr>) = sgid w"
  "ruid (w\<lparr>egid_id := x\<rparr>) = ruid w" "suid (w\<lparr>egid_id := x\<rparr>) = suid w"
  "rgid (w\<lparr>egid_id := x\<rparr>) = rgid w" "euid (w\<lparr>egid_id := x\<rparr>) = euid w"
  "sgid (w\<lparr>egid_id := x\<rparr>) = sgid w"
  by (simp_all add: ruid_def euid_def suid_def rgid_def egid_def sgid_def)

lemma ids_overrun [simp]:
  "ruid (w\<lparr>overrun := b\<rparr>) = ruid w" "euid (w\<lparr>overrun := b\<rparr>) = euid w"
  "suid (w\<lparr>overrun := b\<rparr>) = suid w" "rgid (w\<lparr>overrun := b\<rparr>) = rgid w"
  "egid (w\<lparr>overrun := b\<rparr>) = egid w" "sgid (w\<lparr>overrun := b\<rparr>) = sgid w"
  by (simp_all add: ruid_def euid_def suid_def rgid_def egid_def sgid_def)

lemma ids_emit [simp]:
  "ruid (emit e w) = ruid w \<and> euid (emit e w) = euid w \<and> suid (emit e w) = suid w \<and>
   rgid (emit e w) = rgid w \<and> egid (emit e w) = egid w \<and> sgid (emit e w) = sgid w"
  by (simp add: ruid_def euid_def suid_def rgid_def egid_def sgid_def emit_def)

lemma emit_frame [simp]:
  "ruid (emit e w) = ruid w"
  "euid (emit e w) = euid w"
  "suid (emit e w) = suid w"
  "rgid (emit e w) = rgid w"
  "egid (emit e w) = egid w"
  "sgid (emit e w) = sgid w"
  "fd_open (emit e w) = fd_open w"
  "fpos (emit e w) = fpos w"
  "flock_held (emit e w) = flock_held w"
  "fcntl_held (emit e w) = fcntl_held w"
  "buf_cap (emit e w) = buf_cap w"
  "overrun (emit e w) = overrun w"
  "open_ok (emit e w) = open_ok w"
  "flock_ok (emit e w) = flock_ok w"
  "fcntl_ok (emit e w) = fcntl_ok w"
  "fstats (emit e w) = fstats w"
  "reads (emit e w) = reads w"
  "allocs (emit e w) = allocs w"
  "lseeks (emit e w) = lseeks w"
  by (simp_all add: emit_def ruid_def euid_def suid_def rgid_def egid_def sgid_def emit_def)

lemma seteuid_frame [simp]:
  "ruid (snd (seteuid u w)) = ruid w"
  "suid (snd (seteuid u w)) = suid w"
  "rgid (snd (seteuid u w)) = rgid w"
  "egid (snd (seteuid u w)) = egid w"
  "sgid (snd (seteuid u w)) = sgid w"
  "fd_open (snd (seteuid u w)) = fd_open w"
  "fpos (snd (seteuid u w)) = fpos w"
  "flock_held (snd (seteuid u w)) = flock_held w"
  "fcntl_held (snd (seteuid u w)) = fcntl_held w"
  "buf_cap (snd (seteuid u w)) = buf_cap w"
  "overrun (snd (seteuid u w)) = overrun w"
  "open_ok (snd (seteuid u w)) = open_ok w"
  "flock_ok (snd (seteuid u w)) = flock_ok w"
  "fcntl_ok (snd (seteuid u w)) = fcntl_ok w"
  "fstats (snd (seteuid u w)) = fstats w"
  "reads (snd (seteuid u w)) = reads w"
  "allocs (snd (seteuid u w)) = allocs w"
  "lseeks (snd (seteuid u w)) = lseeks w"
  by (simp_all add: seteuid_def ruid_def euid_def suid_def rgid_def egid_def sgid_def emit_def)

lemma setegid_frame [simp]:
  "ruid (snd (setegid g w)) = ruid w"
  "euid (snd (setegid g w)) = euid w"
  "suid (snd (setegid g w)) = suid w"
  "rgid (snd (setegid g w)) = rgid w"
  "sgid (snd (setegid g w)) = sgid w"
  "fd_open (snd (setegid g w)) = fd_open w"
  "fpos (snd (setegid g w)) = fpos w"
  "flock_held (snd (setegid g w)) = flock_held w"
  "fcntl_held (snd (setegid g w)) = fcntl_held w"
  "buf_cap (snd (setegid g w)) = buf_cap w"
  "overrun (snd (setegid g w)) = overrun w"
  "open_ok (snd (setegid g w)) = open_ok w"
  "flock_ok (snd (setegid g w)) = flock_ok w"
  "fcntl_ok (snd (setegid g w)) = fcntl_ok w"
  "fstats (snd (setegid g w)) = fstats w"
  "reads (snd (setegid g w)) = reads w"
  "allocs (snd (setegid g w)) = allocs w"
  "lseeks (snd (setegid g w)) = lseeks w"
  by (simp_all add: setegid_def ruid_def euid_def suid_def rgid_def egid_def sgid_def emit_def)

lemma priv_drop_frame [simp]:
  "ruid (snd (priv_drop u g w)) = ruid w"
  "suid (snd (priv_drop u g w)) = suid w"
  "rgid (snd (priv_drop u g w)) = rgid w"
  "sgid (snd (priv_drop u g w)) = sgid w"
  "fd_open (snd (priv_drop u g w)) = fd_open w"
  "fpos (snd (priv_drop u g w)) = fpos w"
  "flock_held (snd (priv_drop u g w)) = flock_held w"
  "fcntl_held (snd (priv_drop u g w)) = fcntl_held w"
  "buf_cap (snd (priv_drop u g w)) = buf_cap w"
  "overrun (snd (priv_drop u g w)) = overrun w"
  "open_ok (snd (priv_drop u g w)) = open_ok w"
  "flock_ok (snd (priv_drop u g w)) = flock_ok w"
  "fcntl_ok (snd (priv_drop u g w)) = fcntl_ok w"
  "fstats (snd (priv_drop u g w)) = fstats w"
  "reads (snd (priv_drop u g w)) = reads w"
  "allocs (snd (priv_drop u g w)) = allocs w"
  "lseeks (snd (priv_drop u g w)) = lseeks w"
  by (simp_all add: priv_drop_def Let_def split_beta)

lemma raise_priv_frame [simp]:
  "ruid (snd (raise_priv u g w)) = ruid w"
  "suid (snd (raise_priv u g w)) = suid w"
  "rgid (snd (raise_priv u g w)) = rgid w"
  "sgid (snd (raise_priv u g w)) = sgid w"
  "fd_open (snd (raise_priv u g w)) = fd_open w"
  "fpos (snd (raise_priv u g w)) = fpos w"
  "flock_held (snd (raise_priv u g w)) = flock_held w"
  "fcntl_held (snd (raise_priv u g w)) = fcntl_held w"
  "buf_cap (snd (raise_priv u g w)) = buf_cap w"
  "overrun (snd (raise_priv u g w)) = overrun w"
  "open_ok (snd (raise_priv u g w)) = open_ok w"
  "flock_ok (snd (raise_priv u g w)) = flock_ok w"
  "fcntl_ok (snd (raise_priv u g w)) = fcntl_ok w"
  "fstats (snd (raise_priv u g w)) = fstats w"
  "reads (snd (raise_priv u g w)) = reads w"
  "allocs (snd (raise_priv u g w)) = allocs w"
  "lseeks (snd (raise_priv u g w)) = lseeks w"
  by (simp_all add: raise_priv_def Let_def split_beta)

lemma flock_frame [simp]:
  "ruid (snd (flock lop w)) = ruid w"
  "euid (snd (flock lop w)) = euid w"
  "suid (snd (flock lop w)) = suid w"
  "rgid (snd (flock lop w)) = rgid w"
  "egid (snd (flock lop w)) = egid w"
  "sgid (snd (flock lop w)) = sgid w"
  "fd_open (snd (flock lop w)) = fd_open w"
  "fpos (snd (flock lop w)) = fpos w"
  "fcntl_held (snd (flock lop w)) = fcntl_held w"
  "buf_cap (snd (flock lop w)) = buf_cap w"
  "overrun (snd (flock lop w)) = overrun w"
  "open_ok (snd (flock lop w)) = open_ok w"
  "flock_ok (snd (flock lop w)) = flock_ok w"
  "fcntl_ok (snd (flock lop w)) = fcntl_ok w"
  "fstats (snd (flock lop w)) = fstats w"
  "reads (snd (flock lop w)) = reads w"
  "allocs (snd (flock lop w)) = allocs w"
  "lseeks (snd (flock lop w)) = lseeks w"
  by (simp_all add: flock_def Let_def ruid_def euid_def suid_def rgid_def egid_def sgid_def emit_def)

lemma fcntl_setlkw_frame [simp]:
  "ruid (snd (fcntl_setlkw fop w)) = ruid w"
  "euid (snd (fcntl_setlkw fop w)) = euid w"
  "suid (snd (fcntl_setlkw fop w)) = suid w"
  "rgid (snd (fcntl_setlkw fop w)) = rgid w"
  "egid (snd (fcntl_setlkw fop w)) = egid w"
  "sgid (snd (fcntl_setlkw fop w)) = sgid w"
  "fd_open (snd (fcntl_setlkw fop w)) = fd_open w"
  "fpos (snd (fcntl_setlkw fop w)) = fpos w"
  "flock_held (snd (fcntl_setlkw fop w)) = flock_held w"
  "buf_cap (snd (fcntl_setlkw fop w)) = buf_cap w"
  "overrun (snd (fcntl_setlkw fop w)) = overrun w"
  "open_ok (snd (fcntl_setlkw fop w)) = open_ok w"
  "flock_ok (snd (fcntl_setlkw fop w)) = flock_ok w"
  "fcntl_ok (snd (fcntl_setlkw fop w)) = fcntl_ok w"
  "fstats (snd (fcntl_setlkw fop w)) = fstats w"
  "reads (snd (fcntl_setlkw fop w)) = reads w"
  "allocs (snd (fcntl_setlkw fop w)) = allocs w"
  "lseeks (snd (fcntl_setlkw fop w)) = lseeks w"
  by (simp_all add: fcntl_setlkw_def Let_def ruid_def euid_def suid_def rgid_def egid_def sgid_def emit_def)

lemma filelock_frame [simp]:
  "ruid (snd (filelock lock_type action w)) = ruid w"
  "euid (snd (filelock lock_type action w)) = euid w"
  "suid (snd (filelock lock_type action w)) = suid w"
  "rgid (snd (filelock lock_type action w)) = rgid w"
  "egid (snd (filelock lock_type action w)) = egid w"
  "sgid (snd (filelock lock_type action w)) = sgid w"
  "fd_open (snd (filelock lock_type action w)) = fd_open w"
  "fpos (snd (filelock lock_type action w)) = fpos w"
  "buf_cap (snd (filelock lock_type action w)) = buf_cap w"
  "overrun (snd (filelock lock_type action w)) = overrun w"
  "open_ok (snd (filelock lock_type action w)) = open_ok w"
  "flock_ok (snd (filelock lock_type action w)) = flock_ok w"
  "fcntl_ok (snd (filelock lock_type action w)) = fcntl_ok w"
  "fstats (snd (filelock lock_type action w)) = fstats w"
  "reads (snd (filelock lock_type action w)) = reads w"
  "allocs (snd (filelock lock_type action w)) = allocs w"
  "lseeks (snd (filelock lock_type action w)) = lseeks w"
  by (cases "flock_of_action action"; cases "fcntl_of_action action";
      simp add: filelock_def split_beta)+

lemma sys_open_frame [simp]:
  "ruid (snd (sys_open path w)) = ruid w"
  "euid (snd (sys_open path w)) = euid w"
  "suid (snd (sys_open path w)) = suid w"
  "rgid (snd (sys_open path w)) = rgid w"
  "egid (snd (sys_open path w)) = egid w"
  "sgid (snd (sys_open path w)) = sgid w"
  "flock_held (snd (sys_open path w)) = flock_held w"
  "fcntl_held (snd (sys_open path w)) = fcntl_held w"
  "buf_cap (snd (sys_open path w)) = buf_cap w"
  "overrun (snd (sys_open path w)) = overrun w"
  "open_ok (snd (sys_open path w)) = open_ok w"
  "flock_ok (snd (sys_open path w)) = flock_ok w"
  "fcntl_ok (snd (sys_open path w)) = fcntl_ok w"
  "fstats (snd (sys_open path w)) = fstats w"
  "reads (snd (sys_open path w)) = reads w"
  "allocs (snd (sys_open path w)) = allocs w"
  "lseeks (snd (sys_open path w)) = lseeks w"
  by (simp_all add: sys_open_def ruid_def euid_def suid_def rgid_def egid_def sgid_def emit_def)

lemma sys_close_frame [simp]:
  "ruid (sys_close w) = ruid w"
  "euid (sys_close w) = euid w"
  "suid (sys_close w) = suid w"
  "rgid (sys_close w) = rgid w"
  "egid (sys_close w) = egid w"
  "sgid (sys_close w) = sgid w"
  "fpos (sys_close w) = fpos w"
  "buf_cap (sys_close w) = buf_cap w"
  "overrun (sys_close w) = overrun w"
  "open_ok (sys_close w) = open_ok w"
  "flock_ok (sys_close w) = flock_ok w"
  "fcntl_ok (sys_close w) = fcntl_ok w"
  "fstats (sys_close w) = fstats w"
  "reads (sys_close w) = reads w"
  "allocs (sys_close w) = allocs w"
  "lseeks (sys_close w) = lseeks w"
  by (simp_all add: sys_close_def ruid_def euid_def suid_def rgid_def egid_def sgid_def emit_def)

lemma sys_fstat_frame [simp]:
  "ruid (snd (sys_fstat w)) = ruid w"
  "euid (snd (sys_fstat w)) = euid w"
  "suid (snd (sys_fstat w)) = suid w"
  "rgid (snd (sys_fstat w)) = rgid w"
  "egid (snd (sys_fstat w)) = egid w"
  "sgid (snd (sys_fstat w)) = sgid w"
  "fd_open (snd (sys_fstat w)) = fd_open w"
  "fpos (snd (sys_fstat w)) = fpos w"
  "flock_held (snd (sys_fstat w)) = flock_held w"
  "fcntl_held (snd (sys_fstat w)) = fcntl_held w"
  "buf_cap (snd (sys_fstat w)) = buf_cap w"
  "overrun (snd (sys_fstat w)) = overrun w"
  "open_ok (snd (sys_fstat w)) = open_ok w"
  "flock_ok (snd (sys_fstat w)) = flock_ok w"
  "fcntl_ok (snd (sys_fstat w)) = fcntl_ok w"
  "reads (snd (sys_fstat w)) = reads w"
  "allocs (snd (sys_fstat w)) = allocs w"
  "lseeks (snd (sys_fstat w)) = lseeks w"
  by (simp_all add: sys_fstat_def ruid_def euid_def suid_def rgid_def egid_def sgid_def emit_def split: list.split)

lemma sys_read_frame [simp]:
  "ruid (snd (snd (sys_read n buf w))) = ruid w"
  "euid (snd (snd (sys_read n buf w))) = euid w"
  "suid (snd (snd (sys_read n buf w))) = suid w"
  "rgid (snd (snd (sys_read n buf w))) = rgid w"
  "egid (snd (snd (sys_read n buf w))) = egid w"
  "sgid (snd (snd (sys_read n buf w))) = sgid w"
  "fd_open (snd (snd (sys_read n buf w))) = fd_open w"
  "flock_held (snd (snd (sys_read n buf w))) = flock_held w"
  "fcntl_held (snd (snd (sys_read n buf w))) = fcntl_held w"
  "buf_cap (snd (snd (sys_read n buf w))) = buf_cap w"
  "open_ok (snd (snd (sys_read n buf w))) = open_ok w"
  "flock_ok (snd (snd (sys_read n buf w))) = flock_ok w"
  "fcntl_ok (snd (snd (sys_read n buf w))) = fcntl_ok w"
  "fstats (snd (snd (sys_read n buf w))) = fstats w"
  "allocs (snd (snd (sys_read n buf w))) = allocs w"
  "lseeks (snd (snd (sys_read n buf w))) = lseeks w"
  by (simp_all add: sys_read_def ruid_def euid_def suid_def rgid_def egid_def sgid_def emit_def split: list.split option.split)

lemma sys_malloc_frame [simp]:
  "ruid (snd (sys_malloc n w)) = ruid w"
  "euid (snd (sys_malloc n w)) = euid w"
  "suid (snd (sys_malloc n w)) = suid w"
  "rgid (snd (sys_malloc n w)) = rgid w"
  "egid (snd (sys_malloc n w)) = egid w"
  "sgid (snd (sys_malloc n w)) = sgid w"
  "fd_open (snd (sys_malloc n w)) = fd_open w"
  "fpos (snd (sys_malloc n w)) = fpos w"
  "flock_held (snd (sys_malloc n w)) = flock_held w"
  "fcntl_held (snd (sys_malloc n w)) = fcntl_held w"
  "overrun (snd (sys_malloc n w)) = overrun w"
  "open_ok (snd (sys_malloc n w)) = open_ok w"
  "flock_ok (snd (sys_malloc n w)) = flock_ok w"
  "fcntl_ok (snd (sys_malloc n w)) = fcntl_ok w"
  "fstats (snd (sys_malloc n w)) = fstats w"
  "reads (snd (sys_malloc n w)) = reads w"
  "lseeks (snd (sys_malloc n w)) = lseeks w"
  by (simp_all add: sys_malloc_def ruid_def euid_def suid_def rgid_def egid_def sgid_def emit_def split: list.split)

lemma sys_realloc_frame [simp]:
  "ruid (snd (sys_realloc n w)) = ruid w"
  "euid (snd (sys_realloc n w)) = euid w"
  "suid (snd (sys_realloc n w)) = suid w"
  "rgid (snd (sys_realloc n w)) = rgid w"
  "egid (snd (sys_realloc n w)) = egid w"
  "sgid (snd (sys_realloc n w)) = sgid w"
  "fd_open (snd (sys_realloc n w)) = fd_open w"
  "fpos (snd (sys_realloc n w)) = fpos w"
  "flock_held (snd (sys_realloc n w)) = flock_held w"
  "fcntl_held (snd (sys_realloc n w)) = fcntl_held w"
  "overrun (snd (sys_realloc n w)) = overrun w"
  "open_ok (snd (sys_realloc n w)) = open_ok w"
  "flock_ok (snd (sys_realloc n w)) = flock_ok w"
  "fcntl_ok (snd (sys_realloc n w)) = fcntl_ok w"
  "fstats (snd (sys_realloc n w)) = fstats w"
  "reads (snd (sys_realloc n w)) = reads w"
  "lseeks (snd (sys_realloc n w)) = lseeks w"
  by (simp_all add: sys_realloc_def ruid_def euid_def suid_def rgid_def egid_def sgid_def emit_def split: list.split)

lemma sys_lseek_frame [simp]:
  "ruid (snd (sys_lseek w)) = ruid w"
  "euid (snd (sys_lseek w)) = euid w"
  "suid (snd (sys_lseek w)) = suid w"
  "rgid (snd (sys_lseek w)) = rgid w"
  "egid (snd (sys_lseek w)) = egid w"
  "sgid (snd (sys_lseek w)) = sgid w"
  "fd_open (snd (sys_lseek w)) = fd_open w"
  "flock_held (snd (sys_lseek w)) = flock_held w"
  "fcntl_held (snd (sys_lseek w)) = fcntl_held w"
  "buf_cap (snd (sys_lseek w)) = buf_cap w"
  "overrun (snd (sys_lseek w)) = overrun w"
  "open_ok (snd (sys_lseek w)) = open_ok w"
  "flock_ok (snd (sys_lseek w)) = flock_ok w"
  "fcntl_ok (snd (sys_lseek w)) = fcntl_ok w"
  "fstats (snd (sys_lseek w)) = fstats w"
  "reads (snd (sys_lseek w)) = reads w"
  "allocs (snd (sys_lseek w)) = allocs w"
  by (simp_all add: sys_lseek_def ruid_def euid_def suid_def rgid_def egid_def sgid_def emit_def split: list.split)


subsection \<open>Read calls in the trace\<close>

lemma read_counts_append [simp]: "read_counts (xs @ ys) = read_counts xs @ read_counts ys"
  by (induction xs rule: read_counts.induct) simp_all

lemma read_calls_emit [simp]:
  "read_calls (emit e w) = read_calls w @ read_counts [e]"
  by (simp add: read_calls_def emit_def)

lemma read_calls_update [simp]:
  "read_calls (w\<lparr>euid_id := x\<rparr>) = read_calls w"
  "read_calls (w\<lparr>egid_id := y\<rparr>) = read_calls w"
  "read_calls (w\<lparr>fpos := n\<rparr>) = read_calls w"
  "read_calls (w\<lparr>buf_cap := n\<rparr>) = read_calls w"
  "read_calls (w\<lparr>overrun := b\<rparr>) = read_calls w"
  "read_calls (w\<lparr>fd_open := b\<rparr>) = read_calls w"
  "read_calls (w\<lparr>flock_held := h\<rparr>) = read_calls w"
  "read_calls (w\<lparr>fcntl_held := h\<rparr>) = read_calls w"
  "read_calls (w\<lparr>fstats := fs\<rparr>) = read_calls w"
  "read_calls (w\<lparr>reads := rs\<rparr>) = read_calls w"
  "read_calls (w\<lparr>allocs := bs\<rparr>) = read_calls w"
  "read_calls (w\<lparr>lseeks := bs\<rparr>) = read_calls w"
  by (simp_all add: read_calls_def)

lemma read_calls_creds [simp]:
  "read_calls (snd (seteuid u w)) = read_calls w"
  "read_calls (snd (setegid g w)) = read_calls w"
  by (simp_all add: seteuid_def setegid_def)

lemma read_calls_priv [simp]:
  "read_calls (snd (priv_drop u g w)) = read_calls w"
  "read_calls (snd (raise_priv u g w)) = read_calls w"
  by (simp_all add: priv_drop_def raise_priv_def Let_def split_beta)

lemma read_calls_locks [simp]:
  "read_calls (snd (flock lop w)) = read_calls w"
  "read_calls (snd (fcntl_setlkw fop w)) = read_calls w"
  by (simp_all add: flock_def fcntl_setlkw_def Let_def)

lemma read_calls_filelock [simp]:
  "read_calls (snd (filelock lock_type action w)) = read_calls w"
  by (cases "flock_of_action action"; cases "fcntl_of_action action")
    (simp_all add: filelock_def split_beta)

lemma read_calls_file [simp]:
  "read_calls (snd (sys_open path w)) = read_calls w"
  "read_calls (sys_close w) = read_calls w"
  "read_calls (snd (sys_fstat w)) = read_calls w"
  "read_calls (snd (sys_malloc n w)) = read_calls w"
  "read_calls (snd (sys_realloc n w)) = read_calls w"
  "read_calls (snd (sys_lseek w)) = read_calls w"
  "read_calls (snd (snd (sys_read n buf w))) = read_calls w @ [n]"
  by (simp_all add: sys_open_def sys_close_def sys_fstat_def sys_malloc_def sys_realloc_def
      sys_lseek_def sys_read_def split: list.split option.split)

subsection \<open>Credentials, locks and the retry loop\<close>

lemma priv_drop_real_rc [simp]: "fst (priv_drop (ruid w) (rgid w) w) = 0"
  by (simp add: priv_drop_def Let_def split_beta seteuid_def setegid_def may_seteuid_def
      may_setegid_def)

lemma priv_drop_real_eff:
  "euid w = 0 \<Longrightarrow> ruid w \<noteq> 0 \<Longrightarrow>
     euid (snd (priv_drop (ruid w) (rgid w) w)) = ruid w \<and>
     egid (snd (priv_drop (ruid w) (rgid w) w)) = rgid w"
  by (simp add: priv_drop_def Let_def split_beta seteuid_def setegid_def may_seteuid_def
      may_setegid_def)

lemma filelock_rc_cong:
  "flock_ok w' = flock_ok w \<Longrightarrow> fcntl_ok w' = fcntl_ok w \<Longrightarrow>
     fst (filelock lock_type action w') = fst (filelock lock_type action w)"
  by (cases "flock_of_action action"; cases "fcntl_of_action action")
    (simp_all add: filelock_def split_beta flock_def fcntl_setlkw_def Let_def)

lemma raise_priv_same:
  "e = euid x \<Longrightarrow> g = egid x \<Longrightarrow>
     euid (snd (raise_priv e g x)) = e \<and> egid (snd (raise_priv e g x)) = g"
  by (simp add: raise_priv_def Let_def seteuid_def setegid_def may_seteuid_def may_setegid_def)

lemma raise_priv_dropped:
  "suid x = 0 \<Longrightarrow> g \<noteq> - 1 \<Longrightarrow>
     euid (snd (raise_priv 0 g x)) = 0 \<and> egid (snd (raise_priv 0 g x)) = g"
  by (simp add: raise_priv_def Let_def seteuid_def setegid_def may_seteuid_def may_setegid_def)

lemma raise_priv_refused:
  "euid x \<noteq> 0 \<Longrightarrow> ruid x \<noteq> 0 \<Longrightarrow> suid x \<noteq> 0 \<Longrightarrow>
     fst (raise_priv 0 g x) = - 1 \<and>
     euid (snd (raise_priv 0 g x)) = euid x \<and> egid (snd (raise_priv 0 g x)) = egid x"
  by (simp add: raise_priv_def Let_def seteuid_def may_seteuid_def)

lemma sys_close_closed [simp]:
  "fd_open (sys_close w) = False"
  "flock_held (sys_close w) = Unlocked"
  "fcntl_held (sys_close w) = Unlocked"
  by (simp_all add: sys_close_def)

lemma same_proc_refl [simp]: "same_proc w w"
  by (simp add: same_proc_def)

lemma same_proc_trans: "same_proc a b \<Longrightarrow> same_proc b c \<Longrightarrow> same_proc a c"
  by (simp add: same_proc_def)

lemma same_proc_steps [simp]:
  "same_proc w (emit e w)"
  "same_proc w (snd (snd (sys_read n buf w)))"
  "same_proc w (snd (sys_fstat w))"
  "same_proc w (snd (sys_realloc n w))"
  "same_proc w (snd (sys_lseek w))"
  by (simp_all add: same_proc_def)

lemma same_proc_dest:
  "sys_read n buf w = (a, b, w') \<Longrightarrow> same_proc w w'"
  "sys_fstat w = (r, w') \<Longrightarrow> same_proc w w'"
  "sys_realloc n w = (ok, w') \<Longrightarrow> same_proc w w'"
  "sys_lseek (emit e w) = (ok, w') \<Longrightarrow> same_proc w w'"
proof -
  show "sys_read n buf w = (a, b, w') \<Longrightarrow> same_proc w w'"
    using same_proc_steps(2) [of w n buf] by simp
  show "sys_fstat w = (r, w') \<Longrightarrow> same_proc w w'"
    using same_proc_steps(3) [of w] by simp
  show "sys_realloc n w = (ok, w') \<Longrightarrow> same_proc w w'"
    using same_proc_steps(4) [of w n] by simp
  show "sys_lseek (emit e w) = (ok, w') \<Longrightarrow> same_proc w w'"
    using same_proc_steps(5) [of "emit e w"] same_proc_steps(1) [of w e]
    by (simp add: same_proc_def)
qed

lemma read_loop_same_proc:
  "same_proc w (snd (snd (snd (read_loop i rc sptr1 sz buf w))))"
proof (induction i rc sptr1 sz buf w rule: read_loop.induct)
  case (1 i rc sptr1 sz buf w)
  show ?case
  proof (cases "i < tries")
    case False
    then show ?thesis by (simp add: read_loop.simps [of i])
  next
    case True
    obtain sz' buf' w1 where r: "sys_read (st_size sptr1) buf w = (sz', buf', w1)"
      by (cases "sys_read (st_size sptr1) buf w") auto
    have p1: "same_proc w w1"
      by (rule same_proc_dest(1) [OF r])
    obtain so w2 where f: "sys_fstat w1 = (so, w2)" by (cases "sys_fstat w1") auto
    have p2: "same_proc w w2"
      by (rule same_proc_trans [OF p1 same_proc_dest(2) [OF f]])
    show ?thesis
    proof (cases so)
      case None
      with True r f p2 show ?thesis
        by (simp add: read_loop.simps [of i])
    next
      case (Some sptr2)
      show ?thesis
      proof (cases "unchanged sptr2 sptr1")
        case u: True
        with True r f Some p2 show ?thesis
          by (simp add: read_loop.simps [of i])
      next
        case u: False
        show ?thesis
        proof (cases "i < tries - 1")
          case last: False
          have "same_proc w2 (snd (snd (snd (read_loop (i + 1) (- 5) sptr1 sz' buf' w2))))"
            using "1.IH"(2) [OF True r [symmetric] refl f [symmetric] Some u last] .
          with True r f Some u last p2 show ?thesis
            by (simp add: read_loop.simps [of i] same_proc_trans)
        next
          case more: True
          obtain b w3 where a: "sys_realloc (st_size sptr2 + 1) w2 = (b, w3)"
            by (cases "sys_realloc (st_size sptr2 + 1) w2") auto
          have p3: "same_proc w w3"
            by (rule same_proc_trans [OF p2 same_proc_dest(3) [OF a]])
          obtain c w4 where l: "sys_lseek (emit (Usleep 500) w3) = (c, w4)"
            by (cases "sys_lseek (emit (Usleep 500) w3)") auto
          have p4: "same_proc w w4"
            by (rule same_proc_trans [OF p3 same_proc_dest(4) [OF l]])
          show ?thesis
          proof (cases "b \<and> c")
            case False
            with True r f Some u more a l p3 p4 show ?thesis
              by (cases b) (simp_all add: read_loop.simps [of i])
          next
            case bc: True
            then have b: b and c: c by simp_all
            have "same_proc w4 (snd (snd (snd (read_loop (i + 1) rc sptr2 sz' buf' w4))))"
              using "1.IH"(1) [OF True r [symmetric] refl f [symmetric] Some u more
                  a [symmetric, unfolded b [THEN eqTrueI]] refl l [symmetric, unfolded c [THEN eqTrueI]]]
              by simp
            with True r f Some u more a l bc p4 show ?thesis
              by (simp add: read_loop.simps [of i] same_proc_trans)
          qed
        qed
      qed
    qed
  qed
qed

lemma read_loop_frame [simp]:
  "ruid (snd (snd (snd (read_loop i rc sptr1 sz buf w)))) = ruid w"
  "euid (snd (snd (snd (read_loop i rc sptr1 sz buf w)))) = euid w"
  "suid (snd (snd (snd (read_loop i rc sptr1 sz buf w)))) = suid w"
  "rgid (snd (snd (snd (read_loop i rc sptr1 sz buf w)))) = rgid w"
  "egid (snd (snd (snd (read_loop i rc sptr1 sz buf w)))) = egid w"
  "sgid (snd (snd (snd (read_loop i rc sptr1 sz buf w)))) = sgid w"
  "fd_open (snd (snd (snd (read_loop i rc sptr1 sz buf w)))) = fd_open w"
  "flock_held (snd (snd (snd (read_loop i rc sptr1 sz buf w)))) = flock_held w"
  "fcntl_held (snd (snd (snd (read_loop i rc sptr1 sz buf w)))) = fcntl_held w"
  "open_ok (snd (snd (snd (read_loop i rc sptr1 sz buf w)))) = open_ok w"
  "flock_ok (snd (snd (snd (read_loop i rc sptr1 sz buf w)))) = flock_ok w"
  "fcntl_ok (snd (snd (snd (read_loop i rc sptr1 sz buf w)))) = fcntl_ok w"
  using read_loop_same_proc [of w i rc sptr1 sz buf] by (simp_all add: same_proc_def)

lemma sys_results [simp]:
  "fst (sys_open path w) = open_ok w"
  "fd_open (snd (sys_open path w)) = (open_ok w \<or> fd_open w)"
  "fst (sys_fstat w) = (case fstats w of [] \<Rightarrow> None | r # rs \<Rightarrow> r)"
  "fstats (snd (sys_fstat w)) = tl (fstats w)"
  "fst (sys_malloc n w) = (case allocs w of [] \<Rightarrow> False | b # bs \<Rightarrow> b)"
  "allocs (snd (sys_malloc n w)) = tl (allocs w)"
  "fst (sys_realloc n w) = (case allocs w of [] \<Rightarrow> False | b # bs \<Rightarrow> b)"
  "allocs (snd (sys_realloc n w)) = tl (allocs w)"
  "fst (sys_lseek w) = (case lseeks w of [] \<Rightarrow> False | b # bs \<Rightarrow> b)"
  "lseeks (snd (sys_lseek w)) = tl (lseeks w)"
  "reads (snd (snd (sys_read n buf w))) = tl (reads w)"
  by (auto simp add: sys_open_def sys_fstat_def sys_malloc_def sys_realloc_def sys_lseek_def
      sys_read_def emit_def split: list.split option.split)

lemma raise_priv_restores:
  "(euid x = e \<and> egid x = g) \<or> (e = 0 \<and> suid x = 0 \<and> g \<noteq> - 1) \<Longrightarrow>
     euid (snd (raise_priv e g x)) = e \<and> egid (snd (raise_priv e g x)) = g"
  using raise_priv_same [where x = x and e = e and g = g]
    raise_priv_dropped [where x = x and g = g] by auto
lemma read_loop_exit: "read_loop tries rc sptr1 sz buf w = (rc, sz, buf, w)"
  by (simp add: read_loop.simps [of tries])

lemma read_loop_changing:
  assumes "i + length ss = tries" and "ss \<noteq> []"
    and "fstats w = map Some ss @ fr" and "all_changed s1 ss"
    and "allocs w = replicate (length ss - 1) True @ ar"
    and "lseeks w = replicate (length ss - 1) True @ lr"
  shows "fst (read_loop i rc s1 sz buf w) = - 5 \<and>
         read_calls (snd (snd (snd (read_loop i rc s1 sz buf w)))) =
           read_calls w @ map st_size (s1 # butlast ss) \<and>
         fstats (snd (snd (snd (read_loop i rc s1 sz buf w)))) = fr \<and>
         allocs (snd (snd (snd (read_loop i rc s1 sz buf w)))) = ar \<and>
         lseeks (snd (snd (snd (read_loop i rc s1 sz buf w)))) = lr"
  using assms
proof (induction ss arbitrary: i rc s1 sz buf w)
  case Nil
  then show ?case by simp
next
  case (Cons s2 ss)
  let ?r = "sys_read (st_size s1) buf w"
  let ?w1 = "snd (snd ?r)"
  let ?w2 = "snd (sys_fstat ?w1)"
  from Cons.prems have i: "i < tries" by simp
  have f: "fst (sys_fstat ?w1) = Some s2" "fstats ?w2 = map Some ss @ fr"
    using Cons.prems by simp_all
  have u: "\<not> unchanged s2 s1" "all_changed s2 ss" using Cons.prems by simp_all
  show ?case
  proof (cases ss)
    case Nil
    with Cons.prems have "i + 1 = tries" "\<not> i < tries - 1" by simp_all
    with i f u Nil Cons.prems show ?thesis
      by (simp add: read_loop.simps [of i] split_beta read_loop_exit)
  next
    case more_ss: (Cons s3 ss')
    let ?w3 = "snd (sys_realloc (st_size s2 + 1) ?w2)"
    let ?w4 = "snd (sys_lseek (emit (Usleep 500) ?w3))"
    from more_ss Cons.prems have more: "i < tries - 1" by simp
    have a: "fst (sys_realloc (st_size s2 + 1) ?w2)" "fst (sys_lseek (emit (Usleep 500) ?w3))"
      using more_ss Cons.prems by simp_all
    have p: "Suc i + length ss = tries" "ss \<noteq> []" "fstats ?w4 = map Some ss @ fr"
      "allocs ?w4 = replicate (length ss - 1) True @ ar"
      "lseeks ?w4 = replicate (length ss - 1) True @ lr"
      using more_ss Cons.prems by simp_all
    note IH = Cons.IH [OF p(1,2,3) u(2) p(4,5), of rc "fst ?r" "fst (snd ?r)"]
    have step: "read_loop i rc s1 sz buf w = read_loop (Suc i) rc s2 (fst ?r) (fst (snd ?r)) ?w4"
      using i f u more a by (simp add: read_loop.simps [of i] split_beta)
    show ?thesis
      using IH by (simp add: step more_ss)
  qed
qed

lemma sys_read_results [simp]:
  "fst (sys_read n buf w) =
     (case reads w of [] \<Rightarrow> - 1 | None # rs \<Rightarrow> - 1
      | Some d # rs \<Rightarrow> int (length (take n (drop (fpos w) d))))"
  "fst (snd (sys_read n buf w)) =
     (case reads w of [] \<Rightarrow> buf | None # rs \<Rightarrow> buf
      | Some d # rs \<Rightarrow>
          take n (drop (fpos w) d) @ drop (length (take n (drop (fpos w) d))) buf)"
  "fpos (snd (snd (sys_read n buf w))) =
     (case reads w of [] \<Rightarrow> fpos w | None # rs \<Rightarrow> fpos w
      | Some d # rs \<Rightarrow> fpos w + length (take n (drop (fpos w) d)))"
  "overrun (snd (snd (sys_read n buf w))) =
     (case reads w of [] \<Rightarrow> overrun w | None # rs \<Rightarrow> overrun w
      | Some d # rs \<Rightarrow> overrun w \<or> buf_cap w < length (take n (drop (fpos w) d)))"
  by (simp_all add: sys_read_def split: list.split option.split)

lemma sys_buffer_results [simp]:
  "fpos (snd (sys_open path w)) = (if open_ok w then 0 else fpos w)"
  "buf_cap (snd (sys_malloc n w)) =
     (case allocs w of [] \<Rightarrow> buf_cap w | b # bs \<Rightarrow> if b then n else buf_cap w)"
  "buf_cap (snd (sys_realloc n w)) =
     (case allocs w of [] \<Rightarrow> buf_cap w | b # bs \<Rightarrow> if b then n else buf_cap w)"
  "fpos (snd (sys_lseek w)) =
     (case lseeks w of [] \<Rightarrow> fpos w | b # bs \<Rightarrow> if b then 0 else fpos w)"
  by (simp_all add: sys_open_def sys_malloc_def sys_realloc_def sys_lseek_def emit_def
      split: list.split)


subsection \<open>Other ways through read\_proxy\<close>



lemma read_proxy_not_restored:
  assumes "euid w = 0" and "ruid w \<noteq> 0" and "suid w \<noteq> 0"
  shows "euid (snd (snd (read_proxy path lock_type w))) = ruid w \<and>
         egid (snd (snd (read_proxy path lock_type w))) = rgid w"
proof -
  define w1 where "w1 = snd (priv_drop (ruid w) (rgid w) w)"
  have d: "(if euid w = 0 \<and> ruid w \<noteq> 0 then priv_drop (ruid w) (rgid w) w else (0, w)) = (0, w1)"
    using assms by (simp add: w1_def prod_eq_iff)
  have k: "euid w1 = ruid w" "egid w1 = rgid w" "ruid w1 = ruid w" "suid w1 = suid w"
    using priv_drop_real_eff [OF assms(1,2)] by (simp_all add: w1_def)
  have r: "euid (snd (raise_priv (euid w) (egid w) x)) = ruid w \<and>
           egid (snd (raise_priv (euid w) (egid w) x)) = rgid w"
    if "euid x = euid w1" "egid x = egid w1" "suid x = suid w1" "ruid x = ruid w1" for x
    using raise_priv_refused [of x "egid w"] that k assms by simp
  show ?thesis
    by (simp add: read_proxy_def Let_def d split_beta r split: bool.split option.split)
qed


lemma read_proxy_stable:
  assumes "open_ok w" and "fst (filelock lock_type LCK_READ w) = 0"
    and "fstats w = Some s0 # Some s1 # fr"
    and "\<not> unsafe_permissions s0 (ruid w)"
    and "unchanged s1 s0"
    and "allocs w = True # ar"
    and "reads w = Some c # rr" and "st_size s0 \<le> length c"
  shows "fst (read_proxy path lock_type w) = 0 \<and>
         fst (snd (read_proxy path lock_type w)) = Some (take (st_size s0) c)"
proof -
  define w1 where "w1 = (if euid w = 0 \<and> ruid w \<noteq> 0 then snd (priv_drop (ruid w) (rgid w) w) else w)"
  have d: "(if euid w = 0 \<and> ruid w \<noteq> 0 then priv_drop (ruid w) (rgid w) w else (0, w)) = (0, w1)"
    by (simp add: w1_def prod_eq_iff)
  have k: "open_ok w1" "flock_ok w1 = flock_ok w" "fcntl_ok w1 = fcntl_ok w" "fstats w1 = fstats w"
    "allocs w1 = allocs w" "reads w1 = reads w" "ruid w1 = ruid w"
    using assms(1) by (simp_all add: w1_def)
  have l: "fst (filelock lock_type LCK_READ (snd (sys_open path w1))) = 0"
    using filelock_rc_cong [of "snd (sys_open path w1)" w lock_type LCK_READ] assms(2) k
    by simp
  define w5 where
    "w5 = snd (sys_malloc (st_size s0 + 1)
            (snd (sys_fstat (snd (filelock lock_type LCK_READ (snd (sys_open path w1)))))))"
  have s: "fstats w5 = Some s1 # fr" "reads w5 = Some c # rr" "fpos w5 = 0"
    using assms(3,6,7) k by (simp_all add: w5_def)
  have body: "read_proxy path lock_type w =
      (let r = read_loop 0 0 s0 0 [] w5;
           w9 = snd (raise_priv (euid w) (egid w)
                  (sys_close (snd (filelock lock_type LCK_UNLOCK (snd (snd (snd r)))))))
       in if fst r \<noteq> 0 then (fst r, None, emit Free w9)
          else (0, Some (take (nat (fst (snd r))) (fst (snd (snd r)))),
                w9\<lparr>overrun := overrun w9 \<or> buf_cap w9 \<le> nat (fst (snd r))\<rparr>))"
    using assms(3,4,6) k l
    by (simp add: read_proxy_def Let_def d split_beta w5_def)
  have run: "fst (read_loop 0 0 s0 0 [] w5) = 0"
    "fst (snd (read_loop 0 0 s0 0 [] w5)) = int (st_size s0)"
    "fst (snd (snd (read_loop 0 0 s0 0 [] w5))) = take (st_size s0) c"
    using s assms(5,8) by (simp_all add: read_loop.simps [of 0] split_beta tries_def min_def)
  show ?thesis
    by (simp add: body Let_def run)
qed

subsection \<open>Object identifiers, extensions and the chain\<close>

lemma obj2txt_eq_short:
  "length c < OBJ_BUF_SIZE - 1 \<Longrightarrow> (OBJ_obj2txt OBJ_BUF_SIZE a = c) = (a = c)"
proof
  assume c: "length c < OBJ_BUF_SIZE - 1" and e: "OBJ_obj2txt OBJ_BUF_SIZE a = c"
  then have "min (length a) (OBJ_BUF_SIZE - 1) < OBJ_BUF_SIZE - 1"
    by (auto simp add: OBJ_obj2txt_def)
  then have "length a < OBJ_BUF_SIZE - 1" by simp
  with e show "a = c" by (simp add: OBJ_obj2txt_def)
next
  assume "length c < OBJ_BUF_SIZE - 1" and "a = c"
  then show "OBJ_obj2txt OBJ_BUF_SIZE a = c" by (simp add: OBJ_obj2txt_def)
qed

lemma obj2txt_oids [simp]:
  "(OBJ_obj2txt OBJ_BUF_SIZE a = OID_RFC_PROXY) = (a = OID_RFC_PROXY)"
  "(OBJ_obj2txt OBJ_BUF_SIZE a = OID_LIMITED_PROXY) = (a = OID_LIMITED_PROXY)"
  by (rule obj2txt_eq_short, simp add: OBJ_BUF_SIZE_def OID_RFC_PROXY_def OID_LIMITED_PROXY_def)+

lemma rfc_scan_iff:
  "(rfc_scan exs = 1) = (\<exists>ex \<in> set exs. ext_object ex = Some OID_RFC_PROXY)"
  by (induction exs) (auto split: option.splits)

lemma rfc_scan_range: "rfc_scan exs = 0 \<or> rfc_scan exs = 1"
  by (induction exs) (auto split: option.splits)

lemma get_ext_d2i_Some:
  assumes "X509_get_ext_d2i OBJ_obj2nid d2i x nid = Some pci"
  shows "\<exists>ex \<in> set (cert_extensions x). OBJ_obj2nid (ext_object ex) = nid \<and> d2i (ext_value ex) = Some pci"
proof -
  let ?f = "filter (\<lambda>ex. OBJ_obj2nid (ext_object ex) = nid) (cert_extensions x)"
  from assms obtain ex where f: "?f = [ex]" and d: "d2i (ext_value ex) = Some pci"
    by (auto simp add: X509_get_ext_d2i_def split: list.splits)
  from f have "ex \<in> set ?f" by simp
  then have "ex \<in> set (cert_extensions x)" "OBJ_obj2nid (ext_object ex) = nid" by simp_all
  with d show ?thesis by blast
qed









section \<open>Properties\<close>

subsection \<open>Reading the proxy file\<close>




text \<open>
  C3, as the code has it. However \<open>read_proxy\<close> ends (\<^verbatim>\<open>open\<close> fails, the lock is
  refused, \<^verbatim>\<open>fstat\<close> fails, the permissions are unsafe, an allocation fails, a read or
  seek fails, the retries run out, or the file is read), at its return the descriptor is
  closed and neither advisory lock is held; and the effective user and group are the
  ones the process had at the call, provided that a process that drops privilege
  (effective user 0, real user not 0) has the saved user 0, as a set-user-ID-root
  program has, so that the kernel lets it return to user 0. The process enters with no
  descriptor of its own open.
\<close>

theorem read_proxy_releases:
  assumes "\<not> fd_open w" and "flock_held w = Unlocked" and "fcntl_held w = Unlocked"
    and "euid w = 0 \<and> ruid w \<noteq> 0 \<longrightarrow> suid w = 0"
  shows "case read_proxy path lock_type w of (rc, proxy, w') \<Rightarrow>
           \<not> fd_open w' \<and> flock_held w' = Unlocked \<and> fcntl_held w' = Unlocked \<and>
           euid w' = euid w \<and> egid w' = egid w"
proof -
  define w1 where "w1 = (if euid w = 0 \<and> ruid w \<noteq> 0 then snd (priv_drop (ruid w) (rgid w) w) else w)"
  have d: "(if euid w = 0 \<and> ruid w \<noteq> 0 then priv_drop (ruid w) (rgid w) w else (0, w)) = (0, w1)"
    by (simp add: w1_def prod_eq_iff)
  have k: "fd_open w1 = fd_open w" "flock_held w1 = flock_held w" "fcntl_held w1 = fcntl_held w"
    "suid w1 = suid w"
    by (simp_all add: w1_def)
  have c: "(euid w1 = euid w \<and> egid w1 = egid w) \<or> (euid w = 0 \<and> suid w1 = 0 \<and> egid w \<noteq> - 1)"
    using assms(4) by (simp add: w1_def)
  have r: "euid (snd (raise_priv (euid w) (egid w) x)) = euid w \<and>
           egid (snd (raise_priv (euid w) (egid w) x)) = egid w"
    if "euid x = euid w1" "egid x = egid w1" "suid x = suid w1" for x
    using raise_priv_restores [of x "euid w" "egid w"] c that by auto
  show ?thesis
    using assms(1-3) k
    by (simp add: read_proxy_def Let_def d split_beta r split: bool.split option.split)
qed

theorem read_proxy_releases_witness:
  "case read_proxy ''/tmp/x509up_u1000'' LCK_FCNTL
          (setuid_root_sys [Some (proxy_stat 3 5), None] [Some ''abc'']) of
     (rc, proxy, w') \<Rightarrow>
       \<not> fd_open w' \<and> flock_held w' = Unlocked \<and> fcntl_held w' = Unlocked \<and>
       euid w' = 0 \<and> egid w' = 0"
proof -
  let ?w = "setuid_root_sys [Some (proxy_stat 3 5), None] [Some ''abc'']"
  have h: "\<not> fd_open ?w" "flock_held ?w = Unlocked" "fcntl_held ?w = Unlocked"
    "euid ?w = 0 \<and> ruid ?w \<noteq> 0 \<longrightarrow> suid ?w = 0"
    by (simp_all add: setuid_root_sys_def ids_defs)
  from read_proxy_releases [OF h, of "''/tmp/x509up_u1000''" LCK_FCNTL]
  show ?thesis
    by (simp add: split_beta) (simp add: setuid_root_sys_def ids_defs)
qed

text \<open>
  C4. When every snapshot taken after a read differs from the one the read was sized by
  (in size, mtime or ctime), \<open>read_proxy\<close> returns -5 and stores no proxy after exactly
  ten \<^verbatim>\<open>read\<close> calls: the first sized by the snapshot taken before the loop, each later
  one by the snapshot taken after the read before it. The loop is reached (\<^verbatim>\<open>open\<close>, the
  lock step and the first \<^verbatim>\<open>fstat\<close> succeed, the permissions are safe, the buffer is
  allocated), the ten calls of \<^verbatim>\<open>fstat\<close> in the loop, the nine of \<^verbatim>\<open>realloc\<close> and the
  nine of \<^verbatim>\<open>lseek\<close> succeed; what the reads return does not matter.
\<close>

theorem read_proxy_always_changing:
  assumes "open_ok w" and "fst (filelock lock_type LCK_READ w) = 0"
    and "fstats w = map Some (s0 # ss) @ fr" and "length ss = 10"
    and "\<not> unsafe_permissions s0 (ruid w)" and "all_changed s0 ss"
    and "allocs w = True # replicate 9 True @ ar" and "lseeks w = replicate 9 True @ lr"
  shows "case read_proxy path lock_type w of (rc, proxy, w') \<Rightarrow>
           rc = -5 \<and> proxy = None \<and>
           read_calls w' = read_calls w @ map st_size (s0 # butlast ss) \<and>
           length (read_calls w') = length (read_calls w) + 10"
proof -
  define w1 where "w1 = (if euid w = 0 \<and> ruid w \<noteq> 0 then snd (priv_drop (ruid w) (rgid w) w) else w)"
  have d: "(if euid w = 0 \<and> ruid w \<noteq> 0 then priv_drop (ruid w) (rgid w) w else (0, w)) = (0, w1)"
    by (simp add: w1_def prod_eq_iff)
  have k: "open_ok w1" "flock_ok w1 = flock_ok w" "fcntl_ok w1 = fcntl_ok w" "fstats w1 = fstats w"
    "allocs w1 = allocs w" "lseeks w1 = lseeks w" "read_calls w1 = read_calls w" "ruid w1 = ruid w"
    using assms(1) by (simp_all add: w1_def)
  have l: "fst (filelock lock_type LCK_READ (snd (sys_open path w1))) = 0"
    using filelock_rc_cong [of "snd (sys_open path w1)" w lock_type LCK_READ] assms(2) k
    by simp
  define w5 where
    "w5 = snd (sys_malloc (st_size s0 + 1)
            (snd (sys_fstat (snd (filelock lock_type LCK_READ (snd (sys_open path w1)))))))"
  have s: "fstats w5 = map Some ss @ fr" "allocs w5 = replicate (length ss - 1) True @ ar"
    "lseeks w5 = replicate (length ss - 1) True @ lr" "read_calls w5 = read_calls w"
    using assms(3,4,7,8) k by (simp_all add: w5_def)
  have n: "0 + length ss = tries" "ss \<noteq> []"
    using assms(4) by (auto simp add: tries_def)
  note loop = read_loop_changing [OF n s(1) assms(6) s(2,3), of 0 0 "[]"]
  have body: "read_proxy path lock_type w =
      (let r = read_loop 0 0 s0 0 [] w5;
           w9 = snd (raise_priv (euid w) (egid w)
                  (sys_close (snd (filelock lock_type LCK_UNLOCK (snd (snd (snd r)))))))
       in if fst r \<noteq> 0 then (fst r, None, emit Free w9)
          else (0, Some (take (nat (fst (snd r))) (fst (snd (snd r)))),
                w9\<lparr>overrun := overrun w9 \<or> buf_cap w9 \<le> nat (fst (snd r))\<rparr>))"
    using assms(3,5,7) k l
    by (simp add: read_proxy_def Let_def d split_beta w5_def)
  show ?thesis
    using loop s(4) assms(4) by (simp add: body Let_def)
qed

theorem read_proxy_always_changing_witness:
  "case read_proxy ''/tmp/x509up_u1000'' LCK_FLOCK
          (setuid_root_sys
             [Some (proxy_stat 3 0), Some (proxy_stat 3 1), Some (proxy_stat 3 2),
              Some (proxy_stat 3 3), Some (proxy_stat 3 4), Some (proxy_stat 3 5),
              Some (proxy_stat 3 6), Some (proxy_stat 3 7), Some (proxy_stat 3 8),
              Some (proxy_stat 3 9), Some (proxy_stat 3 10)] []) of
     (rc, proxy, w') \<Rightarrow>
       rc = -5 \<and> proxy = None \<and> read_calls w' = [3, 3, 3, 3, 3, 3, 3, 3, 3, 3]"
proof -
  let ?ss = "[proxy_stat 3 1, proxy_stat 3 2, proxy_stat 3 3, proxy_stat 3 4, proxy_stat 3 5,
              proxy_stat 3 6, proxy_stat 3 7, proxy_stat 3 8, proxy_stat 3 9, proxy_stat 3 10]"
  let ?w = "setuid_root_sys (map Some (proxy_stat 3 0 # ?ss) @ []) []"
  have h1: "open_ok ?w" by (simp add: setuid_root_sys_def ids_defs)
  have h2: "fst (filelock LCK_FLOCK LCK_READ ?w) = 0"
    by (simp add: filelock_def flock_of_action_def flock_def Let_def setuid_root_sys_def ids_defs
        LCK_FLOCK_def LCK_NOLOCK_def LCK_FCNTL_def LCK_READ_def)
  have h3: "fstats ?w = map Some (proxy_stat 3 0 # ?ss) @ []" by (simp add: setuid_root_sys_def ids_defs)
  have h4: "length ?ss = 10" by simp
  have h5: "\<not> unsafe_permissions (proxy_stat 3 0) (ruid ?w)"
    by (simp add: unsafe_permissions_def proxy_stat_def setuid_root_sys_def ids_defs
        S_IRGRP_def S_IWGRP_def S_IROTH_def S_IWOTH_def)
  have h6: "all_changed (proxy_stat 3 0) ?ss"
    by (simp add: unchanged_def proxy_stat_def)
  have h7: "allocs ?w = True # replicate 9 True @ []"
    by (simp add: setuid_root_sys_def ids_defs numeral_eq_Suc)
  have h8: "lseeks ?w = replicate 9 True @ []"
    by (simp add: setuid_root_sys_def ids_defs numeral_eq_Suc)
  from read_proxy_always_changing [OF h1 h2 h3 h4 h5 h6 h7 h8, of "''/tmp/x509up_u1000''"]
  show ?thesis
    by (simp add: split_beta) (simp add: setuid_root_sys_def ids_defs read_calls_def proxy_stat_def)
qed

text \<open>
  C3 as stated fails for a process with effective user 0 whose real and saved user are
  1000: \<open>read_proxy\<close> drops to user and group 1000, reads the file and returns 0, but
  \<^verbatim>\<open>seteuid(0)\<close> is refused inside \<open>raise_priv\<close>, whose result line 716 ignores, and the
  process is left with effective user and group 1000.
\<close>

theorem read_proxy_releases_counterexample:
  "euid ((setuid_root_sys [Some (proxy_stat 3 5), Some (proxy_stat 3 5)] [Some ''abc''])
           \<lparr>suid_id := Abs_id32 1000\<rparr>) = 0 \<and>
   egid ((setuid_root_sys [Some (proxy_stat 3 5), Some (proxy_stat 3 5)] [Some ''abc''])
           \<lparr>suid_id := Abs_id32 1000\<rparr>) = 0 \<and>
   fst (read_proxy ''/tmp/x509up_u1000'' LCK_FCNTL
          ((setuid_root_sys [Some (proxy_stat 3 5), Some (proxy_stat 3 5)] [Some ''abc''])
             \<lparr>suid_id := Abs_id32 1000\<rparr>)) = 0 \<and>
   fst (snd (read_proxy ''/tmp/x509up_u1000'' LCK_FCNTL
          ((setuid_root_sys [Some (proxy_stat 3 5), Some (proxy_stat 3 5)] [Some ''abc''])
             \<lparr>suid_id := Abs_id32 1000\<rparr>))) = Some ''abc'' \<and>
   euid (snd (snd (read_proxy ''/tmp/x509up_u1000'' LCK_FCNTL
          ((setuid_root_sys [Some (proxy_stat 3 5), Some (proxy_stat 3 5)] [Some ''abc''])
             \<lparr>suid_id := Abs_id32 1000\<rparr>)))) = 1000 \<and>
   egid (snd (snd (read_proxy ''/tmp/x509up_u1000'' LCK_FCNTL
          ((setuid_root_sys [Some (proxy_stat 3 5), Some (proxy_stat 3 5)] [Some ''abc''])
             \<lparr>suid_id := Abs_id32 1000\<rparr>)))) = 1000"
proof -
  let ?w = "(setuid_root_sys [Some (proxy_stat 3 5), Some (proxy_stat 3 5)] [Some ''abc''])
              \<lparr>suid_id := Abs_id32 1000\<rparr>"
  have i: "euid ?w = 0" "ruid ?w = 1000" "suid ?w = 1000" "rgid ?w = 1000" "egid ?w = 0"
    by (simp_all add: setuid_root_sys_def ids_defs)
  have h1: "open_ok ?w" by (simp add: setuid_root_sys_def)
  have h2: "fst (filelock LCK_FCNTL LCK_READ ?w) = 0"
    by (simp add: filelock_def fcntl_of_action_def fcntl_setlkw_def Let_def setuid_root_sys_def
        LCK_FLOCK_def LCK_NOLOCK_def LCK_FCNTL_def LCK_READ_def)
  have h3: "fstats ?w = Some (proxy_stat 3 5) # Some (proxy_stat 3 5) # []"
    by (simp add: setuid_root_sys_def)
  have h4: "\<not> unsafe_permissions (proxy_stat 3 5) (ruid ?w)"
    by (simp add: unsafe_permissions_def proxy_stat_def setuid_root_sys_def ids_defs
        S_IRGRP_def S_IWGRP_def S_IROTH_def S_IWOTH_def)
  have h5: "unchanged (proxy_stat 3 5) (proxy_stat 3 5)" by (simp add: unchanged_def)
  have h6: "allocs ?w = True # [True, True, True, True, True, True, True, True, True]"
    by (simp add: setuid_root_sys_def)
  have h7: "reads ?w = Some ''abc'' # []" by (simp add: setuid_root_sys_def)
  have h8: "st_size (proxy_stat 3 5) \<le> length ''abc''" by (simp add: proxy_stat_def)
  have n: "euid ?w = 0" "ruid ?w \<noteq> 0" "suid ?w \<noteq> 0" by (simp_all add: i)
  have t: "take (st_size (proxy_stat 3 5)) ''abc'' = ''abc''" by (simp add: proxy_stat_def)
  from read_proxy_stable [OF h1 h2 h3 h4 h5 h6 h7 h8, of "''/tmp/x509up_u1000''"]
    read_proxy_not_restored [OF n, of "''/tmp/x509up_u1000''" LCK_FCNTL] i t
  show ?thesis by simp
qed





subsection \<open>Privileges and locks\<close>

text \<open>
  C8, as the code has it. For a process with effective user 0, real user not 0 and
  saved user 0 (a set-user-ID-root program), \<open>priv_drop\<close> to the real user and group
  succeeds and makes them the effective ones, and \<open>raise_priv\<close> with the effective ids
  saved before then succeeds and restores exactly the former effective user and group,
  calling \<^verbatim>\<open>seteuid(0)\<close> first and \<^verbatim>\<open>setegid\<close> second; no other id changes. When the
  saved effective user is not 0 and the real user is 0, \<open>raise_priv\<close> succeeds by the
  calls \<^verbatim>\<open>seteuid(0)\<close>, \<^verbatim>\<open>setegid(egid)\<close>, \<^verbatim>\<open>seteuid(euid)\<close> in this order (the saved ids
  being ids, not \<^verbatim>\<open>(uid_t)-1\<close>). When neither the saved effective user nor the real user
  is 0, it returns -1 and makes no call.
\<close>

theorem priv_drop_then_raise_priv_restores:
  "(euid w = 0 \<and> ruid w \<noteq> 0 \<and> suid w = 0 \<longrightarrow>
      (case priv_drop (ruid w) (rgid w) w of (rc1, w1) \<Rightarrow>
         rc1 = 0 \<and> euid w1 = ruid w \<and> egid w1 = rgid w \<and>
         (case raise_priv (euid w) (egid w) w1 of (rc2, w2) \<Rightarrow>
            rc2 = 0 \<and> euid w2 = euid w \<and> egid w2 = egid w \<and>
            ruid w2 = ruid w \<and> rgid w2 = rgid w \<and> suid w2 = suid w \<and> sgid w2 = sgid w \<and>
            trace w2 = trace w1 @ [Seteuid 0, Setegid (egid w)])))
   \<and> (ruid v = 0 \<and> e \<noteq> 0 \<and> e \<noteq> - 1 \<and> g \<noteq> - 1 \<longrightarrow>
        (case raise_priv e g v of (rc, v') \<Rightarrow>
           rc = 0 \<and> euid v' = e \<and> egid v' = g \<and>
           ruid v' = ruid v \<and> rgid v' = rgid v \<and> suid v' = suid v \<and> sgid v' = sgid v \<and>
           trace v' = trace v @ [Seteuid 0, Setegid g, Seteuid e]))
   \<and> (ruid u \<noteq> 0 \<and> e' \<noteq> 0 \<longrightarrow> raise_priv e' g' u = (-1, u))"
proof -
  have drop_raise: "case priv_drop (ruid w) (rgid w) w of (rc1, w1) \<Rightarrow>
         rc1 = 0 \<and> euid w1 = ruid w \<and> egid w1 = rgid w \<and>
         (case raise_priv (euid w) (egid w) w1 of (rc2, w2) \<Rightarrow>
            rc2 = 0 \<and> euid w2 = euid w \<and> egid w2 = egid w \<and>
            ruid w2 = ruid w \<and> rgid w2 = rgid w \<and> suid w2 = suid w \<and> sgid w2 = sgid w \<and>
            trace w2 = trace w1 @ [Seteuid 0, Setegid (egid w)])"
    if "euid w = 0" "ruid w \<noteq> 0" "suid w = 0"
    using that
    by (simp add: priv_drop_def raise_priv_def seteuid_def setegid_def may_seteuid_def
        may_setegid_def Let_def split_beta) (simp add: emit_def)
  have transient: "case raise_priv e g v of (rc, v') \<Rightarrow>
           rc = 0 \<and> euid v' = e \<and> egid v' = g \<and>
           ruid v' = ruid v \<and> rgid v' = rgid v \<and> suid v' = suid v \<and> sgid v' = sgid v \<and>
           trace v' = trace v @ [Seteuid 0, Setegid g, Seteuid e]"
    if "ruid v = 0" "e \<noteq> 0" "e \<noteq> - 1" "g \<noteq> - 1"
    using that
    by (simp add: raise_priv_def seteuid_def setegid_def may_seteuid_def
        may_setegid_def Let_def split_beta) (simp add: emit_def)
  have none: "raise_priv e' g' u = (-1, u)" if "ruid u \<noteq> 0" "e' \<noteq> 0"
    using that by (simp add: raise_priv_def)
  show ?thesis
    apply (intro conjI impI)
      apply (elim conjE, erule (2) drop_raise)
     apply (elim conjE, erule (3) transient)
    apply (elim conjE, erule (1) none)
    done
qed

theorem priv_drop_then_raise_priv_restores_witness:
  "(case priv_drop 1000 1000 (setuid_root_sys [] []) of (rc1, w1) \<Rightarrow>
      rc1 = 0 \<and> euid w1 = 1000 \<and> egid w1 = 1000 \<and>
      (case raise_priv 0 0 w1 of (rc2, w2) \<Rightarrow>
         rc2 = 0 \<and> euid w2 = 0 \<and> egid w2 = 0 \<and>
         trace w2 = trace w1 @ [Seteuid 0, Setegid 0])) \<and>
   (case raise_priv 33 33
           ((setuid_root_sys [] [])
              \<lparr>ruid_id := Abs_id32 0, euid_id := Abs_id32 33, egid_id := Abs_id32 33\<rparr>) of
      (rc, v') \<Rightarrow>
        rc = 0 \<and> euid v' = 33 \<and> egid v' = 33 \<and>
        trace v' = [Seteuid 0, Setegid 33, Seteuid 33]) \<and>
   raise_priv 1000 1000
       ((setuid_root_sys [] [])\<lparr>euid_id := Abs_id32 1000, egid_id := Abs_id32 1000\<rparr>) =
     (-1, (setuid_root_sys [] [])\<lparr>euid_id := Abs_id32 1000, egid_id := Abs_id32 1000\<rparr>)"
proof -
  let ?w = "setuid_root_sys [] []"
  let ?v = "(setuid_root_sys [] [])
              \<lparr>ruid_id := Abs_id32 0, euid_id := Abs_id32 33, egid_id := Abs_id32 33\<rparr>"
  let ?u = "(setuid_root_sys [] [])\<lparr>euid_id := Abs_id32 1000, egid_id := Abs_id32 1000\<rparr>"
  have w: "euid ?w = 0" "ruid ?w = 1000" "suid ?w = 0" "rgid ?w = 1000" "egid ?w = 0"
    by (simp_all add: setuid_root_sys_def ids_defs)
  have v: "ruid ?v = 0" "trace ?v = []"
    by (simp_all add: setuid_root_sys_def ids_defs)
  have u: "ruid ?u = 1000"
    by (simp add: setuid_root_sys_def ids_defs)
  have h: "euid ?w = 0 \<and> ruid ?w \<noteq> 0 \<and> suid ?w = 0"
    "ruid ?v = 0 \<and> (33 :: uid_t) \<noteq> 0 \<and> (33 :: uid_t) \<noteq> - 1 \<and> (33 :: gid_t) \<noteq> - 1"
    "ruid ?u \<noteq> 0 \<and> (1000 :: uid_t) \<noteq> 0"
    by (simp_all add: setuid_root_sys_def ids_defs)
  note t = priv_drop_then_raise_priv_restores [of ?w ?v 33 33 ?u 1000 1000]
  note a = t [THEN conjunct1, THEN mp, OF h(1)]
  note b = t [THEN conjunct2, THEN conjunct1, THEN mp, OF h(2)]
  note c = t [THEN conjunct2, THEN conjunct2, THEN mp, OF h(3)]
  from a b c show ?thesis
    by (simp add: w v split_beta)
qed

text \<open>
  C8 as stated fails for an effective-superuser, real-nonroot process whose saved user
  is not the superuser: the drop succeeds, the kernel refuses \<^verbatim>\<open>seteuid(0)\<close>, and
  \<open>raise_priv\<close> returns -1 with the effective user and group still the real ones.
\<close>

theorem priv_drop_then_raise_priv_restores_counterexample:
  "euid ((setuid_root_sys [] [])\<lparr>suid_id := Abs_id32 1000\<rparr>) = 0 \<and>
   ruid ((setuid_root_sys [] [])\<lparr>suid_id := Abs_id32 1000\<rparr>) = 1000 \<and>
   fst (priv_drop 1000 1000 ((setuid_root_sys [] [])\<lparr>suid_id := Abs_id32 1000\<rparr>)) = 0 \<and>
   fst (raise_priv 0 0
          (snd (priv_drop 1000 1000 ((setuid_root_sys [] [])\<lparr>suid_id := Abs_id32 1000\<rparr>)))) = -1 \<and>
   euid (snd (raise_priv 0 0
          (snd (priv_drop 1000 1000 ((setuid_root_sys [] [])\<lparr>suid_id := Abs_id32 1000\<rparr>))))) = 1000 \<and>
   egid (snd (raise_priv 0 0
          (snd (priv_drop 1000 1000 ((setuid_root_sys [] [])\<lparr>suid_id := Abs_id32 1000\<rparr>))))) = 1000"
proof -
  let ?w = "(setuid_root_sys [] [])\<lparr>suid_id := Abs_id32 1000\<rparr>"
  have w: "euid ?w = 0" "ruid ?w = 1000" "suid ?w = 1000" "rgid ?w = 1000" "egid ?w = 0"
    "sgid ?w = 0"
    by (simp_all add: setuid_root_sys_def ids_defs)
  show ?thesis
    using w
    by (simp add: priv_drop_def raise_priv_def seteuid_def setegid_def may_seteuid_def
        may_setegid_def Let_def split_beta)
qed

text \<open>
  C10. Whenever the no-lock bit is set in \<open>lock_type\<close>, \<open>filelock\<close> returns 0 and leaves
  the whole system state as it was: no \<^verbatim>\<open>flock\<close> or \<^verbatim>\<open>fcntl\<close> call is made (the trace is
  unchanged) and no lock changes, whatever other bits \<open>lock_type\<close> has and whatever the
  action is.
\<close>

theorem filelock_nolock_bit_disables_locking:
  "lock_type AND LCK_NOLOCK \<noteq> 0 \<Longrightarrow> filelock lock_type action w = (0, w)"
  by (simp add: filelock_def)

theorem filelock_nolock_bit_disables_locking_witness:
  "(7::int) AND LCK_NOLOCK \<noteq> 0 \<and>
   filelock 7 LCK_READ (setuid_root_sys [] []) = (0, setuid_root_sys [] []) \<and>
   filelock 7 LCK_UNLOCK (setuid_root_sys [] []) = (0, setuid_root_sys [] [])"
proof -
  have h: "(7::int) AND LCK_NOLOCK \<noteq> 0" by (simp add: LCK_NOLOCK_def)
  show ?thesis
    using h filelock_nolock_bit_disables_locking [OF h, of LCK_READ "setuid_root_sys [] []"]
      filelock_nolock_bit_disables_locking [OF h, of LCK_UNLOCK "setuid_root_sys [] []"]
    by simp
qed

subsection \<open>Certificates and attributes\<close>

text \<open>
  C2. \<open>psp_verify_proxy_signature\<close> returns -1 and logs that the pilot or payload proxy is
  unset when either certificate is absent; returns -1 and logs that the public key
  cannot be got when both are present and the pilot certificate yields no key; returns
  -1 and logs that the payload is not signed by the pilot when \<^verbatim>\<open>X509_verify\<close> of the
  payload under the pilot's key is not 1; and returns 0 exactly when both certificates
  are present, the pilot's key is extracted and \<^verbatim>\<open>X509_verify\<close> of the payload under it
  is 1. It returns nothing but 0 and -1: the three failures differ in the logged line.
\<close>

theorem psp_verify_proxy_signature_verdicts:
  "(payload = None \<or> pilot = None \<longrightarrow>
      psp_verify_proxy_signature X509_verify payload pilot =
        (-1, [(LOG_WARNING,
           ''psp_verify_proxy_signature: pilot or payload proxy is unset.'' @ [CHR 0x0A])])) \<and>
   (payload = Some p \<and> pilot = Some q \<and> X509_get_pubkey q = None \<longrightarrow>
      psp_verify_proxy_signature X509_verify payload pilot =
        (-1, [(LOG_WARNING,
           ''psp_verify_proxy_signature: cannot get public key from pilot cert'' @ [CHR 0x0A])])) \<and>
   (payload = Some p \<and> pilot = Some q \<and> X509_get_pubkey q = Some k \<and> X509_verify p k \<noteq> 1 \<longrightarrow>
      psp_verify_proxy_signature X509_verify payload pilot =
        (-1, [(LOG_WARNING,
           ''psp_verify_proxy_signature: payload cert is not signed by pilot cert'' @ [CHR 0x0A])])) \<and>
   (fst (psp_verify_proxy_signature X509_verify payload pilot) = 0 \<longleftrightarrow>
      (\<exists>p' q' k'. payload = Some p' \<and> pilot = Some q' \<and> X509_get_pubkey q' = Some k' \<and>
         X509_verify p' k' = 1)) \<and>
   (fst (psp_verify_proxy_signature X509_verify payload pilot) = 0 \<or>
    fst (psp_verify_proxy_signature X509_verify payload pilot) = -1)"
  by (cases payload; cases pilot)
    (auto simp add: psp_verify_proxy_signature_def Let_def split: option.splits)

theorem psp_verify_proxy_signature_verdicts_witness:
  "psp_verify_proxy_signature verifies_under None (Some pilot_cert) =
     (-1, [(LOG_WARNING,
        ''psp_verify_proxy_signature: pilot or payload proxy is unset.'' @ [CHR 0x0A])]) \<and>
   psp_verify_proxy_signature verifies_under (Some payload_cert) (Some keyless_cert) =
     (-1, [(LOG_WARNING,
        ''psp_verify_proxy_signature: cannot get public key from pilot cert'' @ [CHR 0x0A])]) \<and>
   psp_verify_proxy_signature verifies_under (Some payload_cert) (Some payload_cert) =
     (-1, [(LOG_WARNING,
        ''psp_verify_proxy_signature: payload cert is not signed by pilot cert'' @ [CHR 0x0A])]) \<and>
   fst (psp_verify_proxy_signature verifies_under (Some payload_cert) (Some pilot_cert)) = 0"
proof -
  have k: "X509_get_pubkey keyless_cert = None" "X509_get_pubkey payload_cert = Some ''payload-key''"
    "X509_get_pubkey pilot_cert = Some ''pilot-key''"
    "verifies_under payload_cert ''payload-key'' \<noteq> 1" "verifies_under payload_cert ''pilot-key'' = 1"
    by (simp_all add: X509_get_pubkey_def keyless_cert_def payload_cert_def pilot_cert_def
        verifies_under_def)
  from psp_verify_proxy_signature_verdicts [of None "Some pilot_cert" verifies_under]
    psp_verify_proxy_signature_verdicts
      [of "Some payload_cert" "Some keyless_cert" verifies_under payload_cert keyless_cert]
    psp_verify_proxy_signature_verdicts
      [of "Some payload_cert" "Some payload_cert" verifies_under payload_cert payload_cert
        "''payload-key''"]
    psp_verify_proxy_signature_verdicts [of "Some payload_cert" "Some pilot_cert" verifies_under]
    k
  show ?thesis by simp
qed




text \<open>
  C7. \<open>psp_proxy_is_limited\<close> returns 1 only for a certificate that has an extension with
  the object identifier 1.3.6.1.5.5.7.1.14 whose value decodes to a proxy certificate
  information with a policy whose language is 1.3.6.1.4.1.3536.1.1.1.9; such a
  certificate also makes \<open>psp_proxy_is_rfc\<close> return 1. It returns 0 when no extension has
  that identifier, when the value of the extension does not decode, and when the decoded
  value has no policy or the policy no language; it never returns anything but 0 and 1.
  OpenSSL's table gives the identifier of the proxy extension a number that no other
  object has.
\<close>

theorem psp_proxy_is_limited_only_if:
  assumes nid: "\<forall>obj. (OBJ_obj2nid obj = OBJ_obj2nid (Some OID_RFC_PROXY)) = (obj = Some OID_RFC_PROXY)"
  shows "(psp_proxy_is_limited OBJ_obj2nid d2i proxy = 1 \<longrightarrow>
            (\<exists>ex pci pol. ex \<in> set (cert_extensions proxy) \<and> ext_object ex = Some OID_RFC_PROXY \<and>
               d2i (ext_value ex) = Some pci \<and> proxyPolicy pci = Some pol \<and>
               policyLanguage pol = Some OID_LIMITED_PROXY) \<and>
            psp_proxy_is_rfc proxy = 1) \<and>
         ((\<forall>ex \<in> set (cert_extensions proxy). ext_object ex \<noteq> Some OID_RFC_PROXY) \<longrightarrow>
            psp_proxy_is_limited OBJ_obj2nid d2i proxy = 0) \<and>
         ((\<forall>ex \<in> set (cert_extensions proxy). ext_object ex = Some OID_RFC_PROXY \<longrightarrow>
              d2i (ext_value ex) = None) \<longrightarrow>
            psp_proxy_is_limited OBJ_obj2nid d2i proxy = 0) \<and>
         ((\<forall>ex \<in> set (cert_extensions proxy). ext_object ex = Some OID_RFC_PROXY \<longrightarrow>
              (\<forall>pci. d2i (ext_value ex) = Some pci \<longrightarrow>
                 proxyPolicy pci = None \<or> (\<exists>pol. proxyPolicy pci = Some pol \<and> policyLanguage pol = None))) \<longrightarrow>
            psp_proxy_is_limited OBJ_obj2nid d2i proxy = 0) \<and>
         (psp_proxy_is_limited OBJ_obj2nid d2i proxy = 0 \<or>
          psp_proxy_is_limited OBJ_obj2nid d2i proxy = 1)"
proof -
  let ?g = "X509_get_ext_d2i OBJ_obj2nid d2i proxy (OBJ_obj2nid (Some OID_RFC_PROXY))"
  have found: "\<exists>ex \<in> set (cert_extensions proxy). ext_object ex = Some OID_RFC_PROXY \<and>
      d2i (ext_value ex) = Some pci" if "?g = Some pci" for pci
    using get_ext_d2i_Some [OF that] nid by auto
  show ?thesis
  proof (cases ?g)
    case None
    then show ?thesis by (simp add: psp_proxy_is_limited_def)
  next
    case (Some pci)
    from found [OF Some] obtain ex where ex: "ex \<in> set (cert_extensions proxy)"
      "ext_object ex = Some OID_RFC_PROXY" "d2i (ext_value ex) = Some pci" by blast
    then have rfc: "psp_proxy_is_rfc proxy = 1"
      by (auto simp add: psp_proxy_is_rfc_def rfc_scan_iff)
    from Some ex rfc show ?thesis
      by (auto simp add: psp_proxy_is_limited_def split: option.splits)
  qed
qed

theorem psp_proxy_is_limited_only_if_witness:
  "psp_proxy_is_limited nid_table pci_decoder payload_cert = 1 \<and>
   psp_proxy_is_rfc payload_cert = 1 \<and>
   psp_proxy_is_limited nid_table pci_decoder pilot_cert = 0 \<and>
   psp_proxy_is_limited nid_table pci_decoder garbled_cert = 0 \<and>
   psp_proxy_is_limited nid_table pci_decoder nolang_cert = 0"
proof -
  have n: "\<forall>obj. (nid_table obj = nid_table (Some OID_RFC_PROXY)) = (obj = Some OID_RFC_PROXY)"
    by (simp add: nid_table_def OID_RFC_PROXY_def)
  have l: "psp_proxy_is_limited nid_table pci_decoder payload_cert = 1"
    by (simp add: psp_proxy_is_limited_def X509_get_ext_d2i_def nid_table_def payload_cert_def
        pci_decoder_def OID_RFC_PROXY_def OID_LIMITED_PROXY_def OBJ_obj2txt_def OBJ_BUF_SIZE_def)
  from psp_proxy_is_limited_only_if [OF n, of pci_decoder payload_cert]
    psp_proxy_is_limited_only_if [OF n, of pci_decoder pilot_cert]
    psp_proxy_is_limited_only_if [OF n, of pci_decoder garbled_cert]
    psp_proxy_is_limited_only_if [OF n, of pci_decoder nolang_cert]
    l
  show ?thesis
    by (simp add: pilot_cert_def garbled_cert_def nolang_cert_def pci_decoder_def
        OID_RFC_PROXY_def)
qed

text \<open>
  C9, as the code has it. \<open>psp_get_fqans\<close> never returns a failure code. When the
  framework has no \<^verbatim>\<open>nfqan\<close> argument it returns 0 and leaves the caller's count and
  list as they were at the call; when the count is there and not positive it returns 0,
  stores that count and leaves the list alone, and \<open>psp_match_fqan\<close> on such a count
  finds no match, whatever the list and the pattern are.
\<close>

theorem psp_get_fqans_absent:
  "(lcmaps_getArgValue ''nfqan'' ''int'' argv = None \<longrightarrow>
      psp_get_fqans nfqans fqans argv = Some (0, nfqans, fqans)) \<and>
   (lcmaps_getArgValue ''nfqan'' ''int'' argv = Some (IntVal n) \<and> n \<le> 0 \<longrightarrow>
      psp_get_fqans nfqans fqans argv = Some (0, n, fqans) \<and>
      psp_match_fqan fnmatch n fqans pattern = Some 0) \<and>
   (\<forall>r. psp_get_fqans nfqans fqans argv = Some r \<longrightarrow> fst r = 0)"
  by (auto simp add: psp_get_fqans_def psp_match_fqan_def split: option.splits argval.splits)

theorem psp_get_fqans_absent_witness:
  "psp_get_fqans 0 None [\<lparr>argName = ''pem_string'', argType = ''char *'', arg_value = Some (PemString ''PEM'')\<rparr>] =
     Some (0, 0, None) \<and>
   psp_get_fqans 0 None [\<lparr>argName = ''nfqan'', argType = ''int'', arg_value = Some (IntVal (-1))\<rparr>] =
     Some (0, -1, None) \<and>
   psp_match_fqan (\<lambda>pattern s. if pattern = s then 0 else 1) (-1) None ''/atlas'' = Some 0"
proof -
  let ?a = "[\<lparr>argName = ''pem_string'', argType = ''char *'', arg_value = Some (PemString ''PEM'')\<rparr>]"
  let ?b = "[\<lparr>argName = ''nfqan'', argType = ''int'', arg_value = Some (IntVal (-1))\<rparr>]"
  have h: "lcmaps_getArgValue ''nfqan'' ''int'' ?a = None"
    "lcmaps_getArgValue ''nfqan'' ''int'' ?b = Some (IntVal (-1)) \<and> (-1 :: int) \<le> 0"
    by (simp_all add: lcmaps_getArgValue_def)
  let ?f = "\<lambda>pattern s :: string. if pattern = s then 0 else 1 :: int"
  have a: "psp_get_fqans 0 None ?a = Some (0, 0, None)"
    using psp_get_fqans_absent [where argv = ?a and nfqans = 0 and fqans = None and n = "-1"
        and fnmatch = ?f and pattern = "''/atlas''"] h(1)
    by blast
  have b: "psp_get_fqans 0 None ?b = Some (0, -1, None) \<and>
           psp_match_fqan ?f (-1) None ''/atlas'' = Some 0"
    using psp_get_fqans_absent [where argv = ?b and nfqans = 0 and fqans = None and n = "-1"
        and fnmatch = ?f and pattern = "''/atlas''"] h(2)
    by blast
  from a b show ?thesis by blast
qed

text \<open>
  C9 as stated fails where the caller's variables hold attributes at the call: with no
  \<^verbatim>\<open>nfqan\<close> argument the function returns 0 and the caller still sees its two attributes,
  one of which matches.
\<close>

theorem psp_get_fqans_absent_counterexample:
  "lcmaps_getArgValue ''nfqan'' ''int'' [] = None \<and>
   psp_get_fqans 2 (Some [''/atlas/Role=production'', ''/atlas'']) [] =
     Some (0, 2, Some [''/atlas/Role=production'', ''/atlas'']) \<and>
   psp_match_fqan (\<lambda>pattern s. if pattern = s then 0 else 1) 2
     (Some [''/atlas/Role=production'', ''/atlas'']) ''/atlas'' = Some 1"
  by (simp add: psp_get_fqans_def lcmaps_getArgValue_def psp_match_fqan_def)

end
